theory Spec2Isabelle
  imports Complex_Main
begin

section \<open>Data model\<close>

text \<open>
  The server actions of the storefront (\<^verbatim>\<open>server/actions/cart.ts\<close>,
  \<^verbatim>\<open>server/actions/checkout.ts\<close>, \<^verbatim>\<open>server/actions/products.ts\<close>,
  \<^verbatim>\<open>server/actions/admin.ts\<close>) are embedded as functions from a database state to a
  result and a new database state. Every action wraps its body in \<^verbatim>\<open>try/catch\<close> and
  returns \<^verbatim>\<open>{ success: false, error }\<close> from the handler; no action runs inside a
  database transaction, so the writes made before an exception stay in the state that
  is returned.

  Identifiers are strings. JavaScript numbers that hold quantities are modelled as
  unbounded integers, numbers that hold money as exact rationals. Time stamps
  (\<^verbatim>\<open>new Date()\<close>) are natural numbers read from the environment. Cache
  revalidation (\<^verbatim>\<open>revalidateTag\<close>) and outgoing e-mail do not touch the database and
  are left out.
\<close>

type_synonym ident = string

datatype OrderStatus = PENDING | PROCESSING | SHIPPED | DELIVERED | CANCELLED | REFUNDED

datatype result = Success | Failure string

datatype operation = SET | ADD | SUBTRACT

record Product =
  inventory :: int
  isActive :: bool
  price :: rat

record Cart =
  cart_id :: ident
  cart_userId :: "ident option"
  cart_sessionId :: "ident option"

record CartItem =
  item_id :: ident
  item_cartId :: ident
  item_productId :: ident
  item_variantId :: "ident option"
  item_quantity :: int

record OrderItem =
  oi_productId :: ident
  oi_quantity :: int
  oi_price :: rat

record Order =
  order_userId :: "ident option"
  order_status :: OrderStatus
  subtotal :: rat
  shippingCost :: rat
  tax :: rat
  total :: rat
  order_items :: "OrderItem list"
  stripeSessionId :: "ident option"
  stripePaymentIntentId :: "ident option"
  paidAt :: "nat option"
  cancelledAt :: "nat option"
  trackingNumber :: "string option"
  order_notes :: "string option"
  updatedAt :: nat

text \<open>
  The database: products and orders are keyed by their primary key; carts and cart
  items are kept in table order, which is the order \<^verbatim>\<open>findFirst\<close> searches.
  \<open>cuids\<close> counts the primary keys generated so far.
\<close>

record db =
  products :: "ident \<rightharpoonup> Product"
  carts :: "Cart list"
  cartItems :: "CartItem list"
  orders :: "ident \<rightharpoonup> Order"
  cuids :: nat

record StripeSession =
  metadata_orderId :: "ident option"
  payment_intent :: "ident option"

text \<open>
  What a request reads from outside the database: the signed-in user
  (\<^verbatim>\<open>getCurrentUser\<close>), the \<^verbatim>\<open>cart-session\<close> cookie, the value \<^verbatim>\<open>nanoid()\<close>
  returns, the sequence of generated primary keys, the clock, whether
  \<^verbatim>\<open>requirePermission\<close> lets the caller through, and the payment processor
  (\<^verbatim>\<open>None\<close> where the call throws).
\<close>

record env =
  currentUser :: "ident option"
  cartCookie :: "ident option"
  nanoid :: ident
  cuid :: "nat \<Rightarrow> ident"
  now :: nat
  permitted :: bool
  stripeRetrieve :: "ident \<Rightarrow> StripeSession option"
  stripeCreate :: "(ident \<times> string) option"

definition inventoryOf :: "db \<Rightarrow> ident \<Rightarrow> int option" where
  "inventoryOf s pid = map_option inventory (products s pid)"

section \<open>Product inventory (server/actions/products.ts)\<close>

text \<open>
  \<^verbatim>\<open>prisma.product.update({ where: { id }, data: { inventory: ... } })\<close>: throws
  (here \<open>None\<close>) when no product has the id.
\<close>

definition product_update_inventory :: "ident \<Rightarrow> (int \<Rightarrow> int) \<Rightarrow> db \<Rightarrow> db option" where
  "product_update_inventory pid f s =
     (case products s pid of
        None \<Rightarrow> None
      | Some p \<Rightarrow> Some (s\<lparr>products := (products s)(pid \<mapsto> p\<lparr>inventory := f (inventory p)\<rparr>)\<rparr>))"

definition updateProductInventory ::
  "env \<Rightarrow> ident \<Rightarrow> int \<Rightarrow> operation \<Rightarrow> db \<Rightarrow> result \<times> db" where
  "updateProductInventory e productId quantity op s =
     (if \<not> permitted e then (Failure ''Failed to update product inventory'', s)
      else case products s productId of
        None \<Rightarrow> (Failure ''Product not found'', s)
      | Some product \<Rightarrow>
          (let newQuantity =
                 (if op = ADD then inventory product + quantity
                  else if op = SUBTRACT then max 0 (inventory product - quantity)
                  else quantity)
           in case product_update_inventory productId (\<lambda>_. newQuantity) s of
                None \<Rightarrow> (Failure ''Failed to update product inventory'', s)
              | Some s' \<Rightarrow> (Success, s')))"

section \<open>Cart (server/actions/cart.ts)\<close>

text \<open>
  The Prisma schema is not among the sources. Primary keys are generated by the
  database layer (\<open>cuid e n\<close> is the \<open>n\<close>-th generated key) and are unique: a
  \<^verbatim>\<open>create\<close> whose key is already in the table throws.
\<close>

definition cart_create :: "env \<Rightarrow> ident option \<Rightarrow> ident option \<Rightarrow> db \<Rightarrow> (Cart \<times> db) option" where
  "cart_create e uid sid s =
     (let c = \<lparr> cart_id = cuid e (cuids s), cart_userId = uid, cart_sessionId = sid \<rparr>
      in if cart_id c \<in> set (map cart_id (carts s)) then None
         else Some (c, s\<lparr>carts := carts s @ [c], cuids := Suc (cuids s)\<rparr>))"

text \<open>\<^verbatim>\<open>prisma.cart.upsert({ where: { userId }, update: {}, create: { userId } })\<close>\<close>

definition cart_upsert_user :: "env \<Rightarrow> ident \<Rightarrow> db \<Rightarrow> (Cart \<times> db) option" where
  "cart_upsert_user e u s =
     (case find (\<lambda>c. cart_userId c = Some u) (carts s) of
        Some c \<Rightarrow> Some (c, s)
      | None \<Rightarrow> cart_create e (Some u) None s)"

definition cart_upsert_session :: "env \<Rightarrow> ident \<Rightarrow> db \<Rightarrow> (Cart \<times> db) option" where
  "cart_upsert_session e sid s =
     (case find (\<lambda>c. cart_sessionId c = Some sid) (carts s) of
        Some c \<Rightarrow> Some (c, s)
      | None \<Rightarrow> cart_create e None (Some sid) s)"

text \<open>
  \<^verbatim>\<open>getCartSession\<close>: the signed-in user's cart, or the guest cart of the
  \<^verbatim>\<open>cart-session\<close> cookie; an absent or empty cookie is replaced by a new
  \<^verbatim>\<open>nanoid()\<close>. The cart is created when it does not exist. (The cookie written back
  to the browser is not part of the database state.)
\<close>

definition getCartSession :: "env \<Rightarrow> db \<Rightarrow> (Cart \<times> db) option" where
  "getCartSession e s =
     (case currentUser e of
        Some u \<Rightarrow> cart_upsert_user e u s
      | None \<Rightarrow>
          (let sessionId = (case cartCookie e of
                              None \<Rightarrow> nanoid e
                            | Some v \<Rightarrow> if v = [] then nanoid e else v)
           in cart_upsert_session e sessionId s))"

definition cartItem_create ::
  "env \<Rightarrow> ident \<Rightarrow> ident \<Rightarrow> int \<Rightarrow> ident option \<Rightarrow> db \<Rightarrow> db option" where
  "cartItem_create e cid pid q vid s =
     (let i = \<lparr> item_id = cuid e (cuids s), item_cartId = cid, item_productId = pid,
                item_variantId = vid, item_quantity = q \<rparr>
      in if item_id i \<in> set (map item_id (cartItems s)) then None
         else Some (s\<lparr>cartItems := cartItems s @ [i], cuids := Suc (cuids s)\<rparr>))"

text \<open>
  \<^verbatim>\<open>prisma.cartItem.update({ where: { id }, data: { quantity } })\<close>. Every call site
  has just read the record with this id, so the update finds it.
\<close>

definition cartItem_update :: "ident \<Rightarrow> int \<Rightarrow> db \<Rightarrow> db" where
  "cartItem_update iid q s =
     s\<lparr>cartItems := map (\<lambda>i. if item_id i = iid then i\<lparr>item_quantity := q\<rparr> else i) (cartItems s)\<rparr>"

definition cartItem_delete :: "ident \<Rightarrow> db \<Rightarrow> db" where
  "cartItem_delete iid s = s\<lparr>cartItems := filter (\<lambda>i. item_id i \<noteq> iid) (cartItems s)\<rparr>"

definition cartItem_deleteMany :: "(CartItem \<Rightarrow> bool) \<Rightarrow> db \<Rightarrow> db" where
  "cartItem_deleteMany P s = s\<lparr>cartItems := filter (\<lambda>i. \<not> P i) (cartItems s)\<rparr>"

text \<open>
  A \<^verbatim>\<open>where\<close> clause on \<^verbatim>\<open>variantId\<close>: the actions pass \<^verbatim>\<open>undefined\<close> when the
  form carries no variant, and Prisma leaves a field whose value is \<^verbatim>\<open>undefined\<close>
  out of the filter.
\<close>

definition where_variantId :: "ident option \<Rightarrow> CartItem \<Rightarrow> bool" where
  "where_variantId vid i = (case vid of None \<Rightarrow> True | Some v \<Rightarrow> item_variantId i = Some v)"

text \<open>
  The form of \<^verbatim>\<open>addToCart\<close>: a field is \<open>None\<close> when the form lacks it; the
  quantity is the result of \<^verbatim>\<open>parseInt\<close>, \<open>None\<close> for \<^verbatim>\<open>NaN\<close>.
\<close>

record AddToCartForm =
  form_productId :: "string option"
  form_quantity :: "int option"
  form_variantId :: "string option"

text \<open>\<^verbatim>\<open>variantId || undefined\<close>: an absent or empty string becomes \<^verbatim>\<open>undefined\<close>.\<close>

definition or_undefined :: "string option \<Rightarrow> string option" where
  "or_undefined v = (case v of None \<Rightarrow> None | Some x \<Rightarrow> if x = [] then None else Some x)"

definition addToCartSchema_parse :: "AddToCartForm \<Rightarrow> (ident \<times> int \<times> ident option) option" where
  "addToCartSchema_parse f =
     (case form_productId f of
        None \<Rightarrow> None
      | Some pid \<Rightarrow>
          (case form_quantity f of
             None \<Rightarrow> None
           | Some q \<Rightarrow>
               if length pid \<ge> 1 \<and> 1 \<le> q \<and> q \<le> 100
               then Some (pid, q, or_undefined (form_variantId f))
               else None))"

definition addToCart :: "env \<Rightarrow> AddToCartForm \<Rightarrow> db \<Rightarrow> result \<times> db" where
  "addToCart e f s =
     (case addToCartSchema_parse f of
        None \<Rightarrow> (Failure ''Failed to add item to cart'', s)
      | Some (productId, quantity, variantId) \<Rightarrow>
          (case products s productId of
             None \<Rightarrow> (Failure ''Product not found or unavailable'', s)
           | Some product \<Rightarrow>
               if \<not> isActive product then (Failure ''Product not found or unavailable'', s)
               else if inventory product < quantity then (Failure ''Insufficient inventory'', s)
               else
                 (case getCartSession e s of
                    None \<Rightarrow> (Failure ''Failed to add item to cart'', s)
                  | Some (cart, s1) \<Rightarrow>
                      (case find (\<lambda>i. item_cartId i = cart_id cart
                                       \<and> item_productId i = productId
                                       \<and> where_variantId variantId i) (cartItems s1) of
                         Some existingItem \<Rightarrow>
                           (let newQuantity = item_quantity existingItem + quantity
                            in if newQuantity > inventory product
                               then (Failure ''Cannot add more items than available in inventory'', s1)
                               else (Success, cartItem_update (item_id existingItem) newQuantity s1))
                       | None \<Rightarrow>
                           (case cartItem_create e (cart_id cart) productId quantity variantId s1 of
                              None \<Rightarrow> (Failure ''Failed to add item to cart'', s1)
                            | Some s2 \<Rightarrow> (Success, s2))))))"

definition updateCartItemSchema_parse :: "int option \<Rightarrow> int option" where
  "updateCartItemSchema_parse q =
     (case q of None \<Rightarrow> None | Some n \<Rightarrow> if 0 \<le> n \<and> n \<le> 100 then Some n else None)"

text \<open>
  \<^verbatim>\<open>updateCartItem\<close>. The item is read with its product; a missing product makes
  \<^verbatim>\<open>cartItem.product.inventory\<close> throw, which the handler turns into the generic error.
\<close>

definition updateCartItem :: "env \<Rightarrow> ident \<Rightarrow> int option \<Rightarrow> db \<Rightarrow> result \<times> db" where
  "updateCartItem e itemId fq s =
     (case updateCartItemSchema_parse fq of
        None \<Rightarrow> (Failure ''Failed to update cart item'', s)
      | Some quantity \<Rightarrow>
          (case getCartSession e s of
             None \<Rightarrow> (Failure ''Failed to update cart item'', s)
           | Some (cart, s1) \<Rightarrow>
               (case find (\<lambda>i. item_id i = itemId \<and> item_cartId i = cart_id cart) (cartItems s1) of
                  None \<Rightarrow> (Failure ''Cart item not found'', s1)
                | Some cartItem \<Rightarrow>
                    if quantity = 0 then (Success, cartItem_delete itemId s1)
                    else
                      (case products s1 (item_productId cartItem) of
                         None \<Rightarrow> (Failure ''Failed to update cart item'', s1)
                       | Some product \<Rightarrow>
                           if quantity > inventory product
                           then (Failure ''Quantity exceeds available inventory'', s1)
                           else (Success, cartItem_update itemId quantity s1)))))"

definition removeFromCart :: "env \<Rightarrow> string option \<Rightarrow> string option \<Rightarrow> db \<Rightarrow> result \<times> db" where
  "removeFromCart e fpid fvid s =
     (case fpid of
        None \<Rightarrow> (Failure ''Failed to remove item from cart'', s)
      | Some productId \<Rightarrow>
          if length productId < 1 then (Failure ''Failed to remove item from cart'', s)
          else
            (case getCartSession e s of
               None \<Rightarrow> (Failure ''Failed to remove item from cart'', s)
             | Some (cart, s1) \<Rightarrow>
                 (Success,
                  cartItem_deleteMany (\<lambda>i. item_cartId i = cart_id cart
                                          \<and> item_productId i = productId
                                          \<and> where_variantId (or_undefined fvid) i) s1)))"

definition clearCart :: "env \<Rightarrow> db \<Rightarrow> result \<times> db" where
  "clearCart e s =
     (case getCartSession e s of
        None \<Rightarrow> (Failure ''Failed to clear cart'', s)
      | Some (cart, s1) \<Rightarrow>
          (Success, cartItem_deleteMany (\<lambda>i. item_cartId i = cart_id cart) s1))"

text \<open>
  \<^verbatim>\<open>getCart\<close>: the lines of the caller's cart with the total
  \<^verbatim>\<open>cartItems.reduce((sum, item) => sum + item.product.price * item.quantity, 0)\<close>.
  Any exception yields the empty cart with total 0.
\<close>

record CartView =
  view_id :: ident
  view_items :: "CartItem list"
  view_total :: rat
  view_itemCount :: int

definition emptyCartView :: CartView where
  "emptyCartView = \<lparr> view_id = [], view_items = [], view_total = 0, view_itemCount = 0 \<rparr>"

definition linePrice :: "db \<Rightarrow> CartItem \<Rightarrow> rat" where
  "linePrice s i = (case products s (item_productId i) of
                      None \<Rightarrow> 0
                    | Some p \<Rightarrow> price p * of_int (item_quantity i))"

definition getCart :: "env \<Rightarrow> db \<Rightarrow> CartView \<times> db" where
  "getCart e s =
     (case getCartSession e s of
        None \<Rightarrow> (emptyCartView, s)
      | Some (cart, s1) \<Rightarrow>
          (let items = filter (\<lambda>i. item_cartId i = cart_id cart) (cartItems s1)
           in if list_ex (\<lambda>i. products s1 (item_productId i) = None) items
              then (emptyCartView, s1)
              else (\<lparr> view_id = cart_id cart, view_items = items,
                      view_total = foldl (\<lambda>sum i. sum + linePrice s1 i) 0 items,
                      view_itemCount = foldl (\<lambda>sum i. sum + item_quantity i) 0 items \<rparr>, s1)))"

text \<open>
  The loop of \<^verbatim>\<open>mergeGuestCart\<close> over the guest cart's items, which were read before
  the loop. The flag is \<open>False\<close> when a \<^verbatim>\<open>create\<close> threw; the writes made before it
  stay.
\<close>

fun merge_items :: "env \<Rightarrow> ident \<Rightarrow> CartItem list \<Rightarrow> db \<Rightarrow> bool \<times> db" where
  "merge_items e ucid [] s = (True, s)"
| "merge_items e ucid (item # rest) s =
     (case find (\<lambda>i. item_cartId i = ucid
                      \<and> item_productId i = item_productId item
                      \<and> item_variantId i = item_variantId item) (cartItems s) of
        Some existingItem \<Rightarrow>
          merge_items e ucid rest
            (cartItem_update (item_id existingItem)
               (item_quantity existingItem + item_quantity item) s)
      | None \<Rightarrow>
          (case cartItem_create e ucid (item_productId item) (item_quantity item)
                  (item_variantId item) s of
             None \<Rightarrow> (False, s)
           | Some s' \<Rightarrow> merge_items e ucid rest s'))"

text \<open>
  Modelled from the spec: the Prisma schema (the \<^verbatim>\<open>Cart\<close>/\<^verbatim>\<open>CartItem\<close> relation) is
  missing from the sources; the spec has \<^verbatim>\<open>mergeGuestCart\<close> delete the guest cart, so
  \<^verbatim>\<open>prisma.cart.delete\<close> is taken to remove the cart together with its items.
\<close>

definition cart_delete :: "ident \<Rightarrow> db \<Rightarrow> db" where
  "cart_delete cid s =
     s\<lparr>carts := filter (\<lambda>c. cart_id c \<noteq> cid) (carts s),
       cartItems := filter (\<lambda>i. item_cartId i \<noteq> cid) (cartItems s)\<rparr>"

definition mergeGuestCart :: "env \<Rightarrow> ident \<Rightarrow> db \<Rightarrow> result \<times> db" where
  "mergeGuestCart e guestSessionId s =
     (case currentUser e of
        None \<Rightarrow> (Failure ''User not authenticated'', s)
      | Some u \<Rightarrow>
          (case find (\<lambda>c. cart_sessionId c = Some guestSessionId) (carts s) of
             None \<Rightarrow> (Success, s)
           | Some guestCart \<Rightarrow>
               (let guestItems = filter (\<lambda>i. item_cartId i = cart_id guestCart) (cartItems s)
                in if length guestItems = 0 then (Success, s)
                   else
                     (case cart_upsert_user e u s of
                        None \<Rightarrow> (Failure ''Failed to merge guest cart'', s)
                      | Some (userCart, s1) \<Rightarrow>
                          (case merge_items e (cart_id userCart) guestItems s1 of
                             (False, s2) \<Rightarrow> (Failure ''Failed to merge guest cart'', s2)
                           | (True, s2) \<Rightarrow> (Success, cart_delete (cart_id guestCart) s2))))))"

section \<open>Checkout (server/actions/checkout.ts)\<close>

record CheckoutItem =
  ci_productId :: ident
  ci_quantity :: int
  ci_price :: rat

text \<open>
  The checkout form, reduced to the fields that decide stock checks, totals and order
  lines. \<open>chk_othersValid\<close> says whether the remaining fields (address lines, customer
  name and e-mail, notes) parse and pass \<^verbatim>\<open>checkoutSchema\<close>.
\<close>

record CheckoutForm =
  chk_items :: "CheckoutItem list"
  chk_state :: string
  chk_shippingMethod :: string
  chk_othersValid :: bool

definition checkoutSchema_parse :: "CheckoutForm \<Rightarrow> CheckoutForm option" where
  "checkoutSchema_parse f =
     (if length (chk_items f) \<ge> 1
         \<and> list_all (\<lambda>i. 1 \<le> ci_quantity i \<and> 0 \<le> ci_price i) (chk_items f)
         \<and> length (chk_state f) \<ge> 1
         \<and> length (chk_shippingMethod f) \<ge> 1
         \<and> chk_othersValid f
      then Some f else None)"

definition shippingRates :: "string \<Rightarrow> rat option" where
  "shippingRates m =
     (if m = ''standard'' then Some (599 / 100)
      else if m = ''express'' then Some (1299 / 100)
      else if m = ''overnight'' then Some (2499 / 100)
      else if m = ''free'' then Some 0
      else None)"

text \<open>\<^verbatim>\<open>shippingRates[method] || 5.99\<close>: an unknown method and the rate 0 both give 5.99.\<close>

definition calculateShippingCost :: "string \<Rightarrow> rat \<Rightarrow> rat" where
  "calculateShippingCost method orderValue =
     (if orderValue \<ge> 75 then 0
      else case shippingRates method of
             None \<Rightarrow> 599 / 100
           | Some r \<Rightarrow> if r = 0 then 599 / 100 else r)"

definition taxRates :: "string \<Rightarrow> rat option" where
  "taxRates st =
     (if st = ''CA'' then Some (8 / 100)
      else if st = ''NY'' then Some (8 / 100)
      else if st = ''TX'' then Some (65 / 1000)
      else if st = ''FL'' then Some (6 / 100)
      else None)"

definition calculateTax :: "rat \<Rightarrow> string \<Rightarrow> rat" where
  "calculateTax sub st =
     (let taxRate = (case taxRates st of None \<Rightarrow> 0 | Some r \<Rightarrow> if r = 0 then 0 else r)
      in sub * taxRate)"

text \<open>The stock check of \<^verbatim>\<open>createCheckout\<close>: the error of the first line that fails.\<close>

fun check_inventory :: "CheckoutItem list \<Rightarrow> db \<Rightarrow> string option" where
  "check_inventory [] s = None"
| "check_inventory (item # rest) s =
     (case products s (ci_productId item) of
        None \<Rightarrow> Some ''One or more products are unavailable''
      | Some product \<Rightarrow>
          if \<not> isActive product then Some ''One or more products are unavailable''
          else if inventory product < ci_quantity item
          then Some ''Insufficient inventory for one or more items''
          else check_inventory rest s)"

definition order_create :: "env \<Rightarrow> Order \<Rightarrow> db \<Rightarrow> (ident \<times> db) option" where
  "order_create e ord s =
     (let oid = cuid e (cuids s)
      in if orders s oid \<noteq> None then None
         else Some (oid, s\<lparr>orders := (orders s)(oid \<mapsto> ord), cuids := Suc (cuids s)\<rparr>))"

text \<open>\<^verbatim>\<open>prisma.order.update\<close>: throws (here \<open>None\<close>) when no order has the id.\<close>

definition order_update :: "ident \<Rightarrow> (Order \<Rightarrow> Order) \<Rightarrow> db \<Rightarrow> db option" where
  "order_update oid f s =
     (case orders s oid of
        None \<Rightarrow> None
      | Some ord \<Rightarrow> Some (s\<lparr>orders := (orders s)(oid \<mapsto> f ord)\<rparr>))"

datatype checkout_result = CheckoutSuccess ident string | CheckoutFailure string

definition createCheckout :: "env \<Rightarrow> CheckoutForm \<Rightarrow> db \<Rightarrow> checkout_result \<times> db" where
  "createCheckout e f s =
     (case checkoutSchema_parse f of
        None \<Rightarrow> (CheckoutFailure ''Failed to create checkout session'', s)
      | Some validatedData \<Rightarrow>
          (case getCart e s of
             (cart, s1) \<Rightarrow>
               if length (view_items cart) = 0 then (CheckoutFailure ''Cart is empty'', s1)
               else
                 (case check_inventory (chk_items validatedData) s1 of
                    Some err \<Rightarrow> (CheckoutFailure err, s1)
                  | None \<Rightarrow>
                      (let shipping = calculateShippingCost (chk_shippingMethod validatedData)
                                        (view_total cart);
                           sub = view_total cart;
                           tx = calculateTax sub (chk_state validatedData);
                           tot = sub + shipping + tx;
                           ord = \<lparr> order_userId = currentUser e, order_status = PENDING,
                                   subtotal = sub, shippingCost = shipping, tax = tx, total = tot,
                                   order_items = map (\<lambda>i. \<lparr> oi_productId = ci_productId i,
                                                            oi_quantity = ci_quantity i,
                                                            oi_price = ci_price i \<rparr>)
                                                     (chk_items validatedData),
                                   stripeSessionId = None, stripePaymentIntentId = None,
                                   paidAt = None, cancelledAt = None, trackingNumber = None,
                                   order_notes = None, updatedAt = now e \<rparr>
                       in case order_create e ord s1 of
                            None \<Rightarrow> (CheckoutFailure ''Failed to create checkout session'', s1)
                          | Some (oid, s2) \<Rightarrow>
                              (case stripeCreate e of
                                 None \<Rightarrow> (CheckoutFailure ''Failed to create checkout session'', s2)
                               | Some (sid, url) \<Rightarrow>
                                   (case order_update oid (\<lambda>r. r\<lparr>stripeSessionId := Some sid\<rparr>) s2 of
                                      None \<Rightarrow> (CheckoutFailure ''Failed to create checkout session'', s2)
                                    | Some s3 \<Rightarrow> (CheckoutSuccess sid url, s3)))))))"

text \<open>
  The two inventory loops over an order's items:
  \<^verbatim>\<open>inventory: { decrement: item.quantity }\<close> in \<^verbatim>\<open>processSuccessfulPayment\<close>
  (\<open>k = -1\<close>) and \<^verbatim>\<open>inventory: { increment: item.quantity }\<close> in
  \<^verbatim>\<open>cancelOrder\<close> (\<open>k = 1\<close>). The flag is \<open>False\<close> when an update threw.
\<close>

fun adjust_inventory :: "int \<Rightarrow> OrderItem list \<Rightarrow> db \<Rightarrow> bool \<times> db" where
  "adjust_inventory k [] s = (True, s)"
| "adjust_inventory k (item # rest) s =
     (case product_update_inventory (oi_productId item) (\<lambda>inv. inv + k * oi_quantity item) s of
        None \<Rightarrow> (False, s)
      | Some s' \<Rightarrow> adjust_inventory k rest s')"

text \<open>
  \<^verbatim>\<open>processSuccessfulPayment\<close>. The confirmation e-mail catches its own errors and
  does not touch the database.
\<close>

definition processSuccessfulPayment :: "env \<Rightarrow> ident \<Rightarrow> db \<Rightarrow> result \<times> db" where
  "processSuccessfulPayment e sessionId s =
     (case stripeRetrieve e sessionId of
        None \<Rightarrow> (Failure ''Failed to process payment'', s)
      | Some session \<Rightarrow>
          (case metadata_orderId session of
             None \<Rightarrow> (Failure ''Failed to process payment'', s)
           | Some oid \<Rightarrow>
               (case orders s oid of
                  None \<Rightarrow> (Failure ''Failed to process payment'', s)
                | Some ord \<Rightarrow>
                    (case order_update oid
                            (\<lambda>r. r\<lparr>order_status := PROCESSING,
                                   stripePaymentIntentId := payment_intent session,
                                   paidAt := Some (now e)\<rparr>) s of
                       None \<Rightarrow> (Failure ''Failed to process payment'', s)
                     | Some s1 \<Rightarrow>
                         (case adjust_inventory (- 1) (order_items ord) s1 of
                            (False, s2) \<Rightarrow> (Failure ''Failed to process payment'', s2)
                          | (True, s2) \<Rightarrow> (Success, snd (clearCart e s2)))))))"

definition cancelOrder :: "env \<Rightarrow> ident \<Rightarrow> db \<Rightarrow> result \<times> db" where
  "cancelOrder e orderId s =
     (case currentUser e of
        None \<Rightarrow> (Failure ''Authentication required'', s)
      | Some u \<Rightarrow>
          (case orders s orderId of
             None \<Rightarrow> (Failure ''Order not found'', s)
           | Some ord \<Rightarrow>
               if order_userId ord \<noteq> Some u then (Failure ''Unauthorized'', s)
               else if order_status ord \<notin> set [PENDING, PROCESSING]
               then (Failure ''Order cannot be cancelled'', s)
               else
                 (case (if order_status ord = PROCESSING
                        then adjust_inventory 1 (order_items ord) s
                        else (True, s)) of
                    (False, s1) \<Rightarrow> (Failure ''Failed to cancel order'', s1)
                  | (True, s1) \<Rightarrow>
                      (case order_update orderId
                              (\<lambda>r. r\<lparr>order_status := CANCELLED,
                                     cancelledAt := Some (now e)\<rparr>) s1 of
                         None \<Rightarrow> (Failure ''Failed to cancel order'', s1)
                       | Some s2 \<Rightarrow> (Success, s2)))))"




section \<open>Order administration (server/actions/admin.ts)\<close>

definition parse_status :: "string \<Rightarrow> OrderStatus option" where
  "parse_status x =
     (if x = ''PENDING'' then Some PENDING
      else if x = ''PROCESSING'' then Some PROCESSING
      else if x = ''SHIPPED'' then Some SHIPPED
      else if x = ''DELIVERED'' then Some DELIVERED
      else if x = ''CANCELLED'' then Some CANCELLED
      else if x = ''REFUNDED'' then Some REFUNDED
      else None)"

record StatusForm =
  sf_status :: "string option"
  sf_trackingNumber :: "string option"
  sf_notes :: "string option"

text \<open>
  \<^verbatim>\<open>updateOrderStatusSchema.parse\<close> accepts the six status names. In the update, a
  field whose value is \<^verbatim>\<open>undefined\<close> is left as it is. A caller without the
  permission is redirected, which the handler catches like any exception. The e-mail
  sent for SHIPPED and DELIVERED catches its own errors and does not touch the database.
\<close>

definition updateOrderStatus :: "env \<Rightarrow> ident \<Rightarrow> StatusForm \<Rightarrow> db \<Rightarrow> result \<times> db" where
  "updateOrderStatus e orderId f s =
     (if \<not> permitted e then (Failure ''Failed to update order status'', s)
      else
        (case sf_status f of
           None \<Rightarrow> (Failure ''Failed to update order status'', s)
         | Some x \<Rightarrow>
             (case parse_status x of
                None \<Rightarrow> (Failure ''Failed to update order status'', s)
              | Some st \<Rightarrow>
                  (case order_update orderId
                          (\<lambda>r. r\<lparr>order_status := st,
                                 trackingNumber := (case or_undefined (sf_trackingNumber f) of
                                                      None \<Rightarrow> trackingNumber r
                                                    | Some tn \<Rightarrow> Some tn),
                                 order_notes := (case or_undefined (sf_notes f) of
                                                   None \<Rightarrow> order_notes r
                                                 | Some n \<Rightarrow> Some n),
                                 updatedAt := now e\<rparr>) s of
                     None \<Rightarrow> (Failure ''Failed to update order status'', s)
                   | Some s' \<Rightarrow> (Success, s')))))"

section \<open>Example data\<close>

definition env0 :: env where
  "env0 = \<lparr> currentUser = Some ''u1'', cartCookie = None, nanoid = ''n1'',
            cuid = (\<lambda>n. replicate (Suc n) CHR ''c''), now = 100, permitted = True,
            stripeRetrieve = (\<lambda>sid. if sid = ''cs1''
               then Some \<lparr> metadata_orderId = Some ''o1'', payment_intent = Some ''pi1'' \<rparr>
               else None),
            stripeCreate = Some (''cs9'', ''url'') \<rparr>"

definition prodA :: Product where
  "prodA = \<lparr> inventory = 5, isActive = True, price = 10 \<rparr>"

definition db_products :: db where
  "db_products = \<lparr> products = [''A'' \<mapsto> prodA], carts = [], cartItems = [],
                   orders = Map.empty, cuids = 0 \<rparr>"

text \<open>An order for three units of product A, owned by user u1.\<close>

definition ord1 :: Order where
  "ord1 = \<lparr> order_userId = Some ''u1'', order_status = PENDING, subtotal = 30,
            shippingCost = 599 / 100, tax = 0, total = 3599 / 100,
            order_items = [\<lparr> oi_productId = ''A'', oi_quantity = 3, oi_price = 10 \<rparr>],
            stripeSessionId = Some ''cs1'', stripePaymentIntentId = None, paidAt = None,
            cancelledAt = None, trackingNumber = None, order_notes = None, updatedAt = 0 \<rparr>"

definition db_order :: "OrderStatus \<Rightarrow> db" where
  "db_order st = \<lparr> products = [''A'' \<mapsto> prodA], carts = [], cartItems = [],
                   orders = [''o1'' \<mapsto> ord1\<lparr>order_status := st\<rparr>], cuids = 0 \<rparr>"

definition form_processing :: StatusForm where
  "form_processing = \<lparr> sf_status = Some ''PROCESSING'', sf_trackingNumber = None, sf_notes = None \<rparr>"

definition env_later :: env where
  "env_later = env0\<lparr>now := 200\<rparr>"

definition prodB :: Product where
  "prodB = \<lparr> inventory = 1, isActive = True, price = 4 \<rparr>"

text \<open>
  Two products, the cart k1 of user u1 with one unit of A and the guest cart k2 of
  session g1 with two units of A; \<open>n\<close> is the inventory of A.
\<close>

definition db_carts :: "int \<Rightarrow> db" where
  "db_carts n =
     \<lparr> products = [''A'' \<mapsto> prodA\<lparr>inventory := n\<rparr>, ''B'' \<mapsto> prodB],
       carts = [\<lparr> cart_id = ''k1'', cart_userId = Some ''u1'', cart_sessionId = None \<rparr>,
                \<lparr> cart_id = ''k2'', cart_userId = None, cart_sessionId = Some ''g1'' \<rparr>],
       cartItems = [\<lparr> item_id = ''i1'', item_cartId = ''k1'', item_productId = ''A'',
                       item_variantId = None, item_quantity = 1 \<rparr>,
                    \<lparr> item_id = ''i2'', item_cartId = ''k2'', item_productId = ''A'',
                       item_variantId = None, item_quantity = 2 \<rparr>],
       orders = Map.empty, cuids = 0 \<rparr>"

definition form_AB :: CheckoutForm where
  "form_AB = \<lparr> chk_items = [\<lparr> ci_productId = ''A'', ci_quantity = 2, ci_price = 10 \<rparr>,
                             \<lparr> ci_productId = ''B'', ci_quantity = 100, ci_price = 4 \<rparr>],
               chk_state = ''CA'', chk_shippingMethod = ''standard'', chk_othersValid = True \<rparr>"

definition form_A :: CheckoutForm where
  "form_A = \<lparr> chk_items = [\<lparr> ci_productId = ''A'', ci_quantity = 3, ci_price = 10 \<rparr>],
              chk_state = ''CA'', chk_shippingMethod = ''standard'', chk_othersValid = True \<rparr>"

text \<open>
  Contention: product A has inventory 5; the carts of users u1 and u2 each hold three
  units of A. The payment processor knows the sessions of the two orders.
\<close>

definition db_contention :: db where
  "db_contention =
     \<lparr> products = [''A'' \<mapsto> prodA],
       carts = [\<lparr> cart_id = ''k1'', cart_userId = Some ''u1'', cart_sessionId = None \<rparr>,
                \<lparr> cart_id = ''k3'', cart_userId = Some ''u2'', cart_sessionId = None \<rparr>],
       cartItems = [\<lparr> item_id = ''i1'', item_cartId = ''k1'', item_productId = ''A'',
                       item_variantId = None, item_quantity = 3 \<rparr>,
                    \<lparr> item_id = ''i3'', item_cartId = ''k3'', item_productId = ''A'',
                       item_variantId = None, item_quantity = 3 \<rparr>],
       orders = Map.empty, cuids = 0 \<rparr>"

definition env_a :: env where
  "env_a = env0\<lparr> stripeCreate := Some (''csA'', ''urlA''),
                 stripeRetrieve := (\<lambda>sid.
                    if sid = ''csA'' then Some \<lparr> metadata_orderId = Some ''c'', payment_intent = None \<rparr>
                    else if sid = ''csB'' then Some \<lparr> metadata_orderId = Some ''cc'', payment_intent = None \<rparr>
                    else None) \<rparr>"

definition env_b :: env where
  "env_b = env_a\<lparr> currentUser := Some ''u2'', stripeCreate := Some (''csB'', ''urlB'') \<rparr>"

definition contention_checked :: db where
  "contention_checked =
     snd (createCheckout env_b form_A (snd (createCheckout env_a form_A db_contention)))"

definition contention_paid :: db where
  "contention_paid =
     snd (processSuccessfulPayment env_b ''csB''
            (snd (processSuccessfulPayment env_a ''csA'' contention_checked)))"

definition add_A :: AddToCartForm where
  "add_A = \<lparr> form_productId = Some ''A'', form_quantity = Some 2, form_variantId = None \<rparr>"


section \<open>Observations used in the statements\<close>

definition statusOf :: "db \<Rightarrow> ident \<Rightarrow> OrderStatus option" where
  "statusOf s oid = map_option order_status (orders s oid)"

definition paidAtOf :: "db \<Rightarrow> ident \<Rightarrow> nat option" where
  "paidAtOf s oid = (case orders s oid of None \<Rightarrow> None | Some ord \<Rightarrow> paidAt ord)"


text \<open>The total quantity an order's lines hold of one product.\<close>

definition qty_for :: "ident \<Rightarrow> OrderItem list \<Rightarrow> int" where
  "qty_for pid items = sum_list (map oi_quantity (filter (\<lambda>i. oi_productId i = pid) items))"

text \<open>
  The cart-shape invariant: every stored line has quantity at least 1, and no two
  lines share cart, product and variant.
\<close>

definition line_key :: "CartItem \<Rightarrow> ident \<times> ident \<times> ident option" where
  "line_key i = (item_cartId i, item_productId i, item_variantId i)"

definition cart_shape :: "db \<Rightarrow> bool" where
  "cart_shape s \<longleftrightarrow> list_all (\<lambda>i. 1 \<le> item_quantity i) (cartItems s)
                    \<and> distinct (map line_key (cartItems s))"

text \<open>
  The line \<^verbatim>\<open>addToCart\<close> finds for a product and variant in the caller's cart, and the
  line \<^verbatim>\<open>updateCartItem\<close> finds for an item id in the caller's cart.
\<close>

definition existingLine :: "env \<Rightarrow> db \<Rightarrow> ident \<Rightarrow> ident option \<Rightarrow> CartItem option" where
  "existingLine e s pid vid =
     (case getCartSession e s of
        None \<Rightarrow> None
      | Some (cart, s1) \<Rightarrow>
          find (\<lambda>i. item_cartId i = cart_id cart \<and> item_productId i = pid
                     \<and> where_variantId vid i) (cartItems s1))"



text \<open>
  The quantity a cart holds of a product and variant, and the quantity a list of guest
  lines holds of them.
\<close>

definition cart_line_qty :: "db \<Rightarrow> ident \<Rightarrow> ident \<Rightarrow> ident option \<Rightarrow> int" where
  "cart_line_qty s cid pid vid =
     sum_list (map item_quantity
       (filter (\<lambda>i. item_cartId i = cid \<and> item_productId i = pid \<and> item_variantId i = vid)
          (cartItems s)))"

definition guest_qty :: "CartItem list \<Rightarrow> ident \<Rightarrow> ident option \<Rightarrow> int" where
  "guest_qty items pid vid =
     sum_list (map item_quantity
       (filter (\<lambda>i. item_productId i = pid \<and> item_variantId i = vid) items))"

section \<open>Verified properties\<close>

subsection \<open>Admin stock adjustment\<close>

text \<open>
  C10. For a caller with the product-update permission and an existing product with
  inventory \<open>i\<close>, \<^verbatim>\<open>updateProductInventory\<close> succeeds; with SUBTRACT the new inventory
  is \<open>max 0 (i - q)\<close>, which is never negative, with ADD it is \<open>i + q\<close> and with
  SET it is \<open>q\<close>.
\<close>

theorem updateProductInventory_new_quantity:
  assumes "permitted e" and "products s pid = Some p"
  shows "fst (updateProductInventory e pid q op s) = Success
    \<and> inventoryOf (snd (updateProductInventory e pid q SUBTRACT s)) pid
           = Some (max 0 (inventory p - q))
    \<and> 0 \<le> the (inventoryOf (snd (updateProductInventory e pid q SUBTRACT s)) pid)
    \<and> inventoryOf (snd (updateProductInventory e pid q ADD s)) pid
           = Some (inventory p + q)
    \<and> inventoryOf (snd (updateProductInventory e pid q SET s)) pid = Some q"
  using assms
  by (simp add: updateProductInventory_def product_update_inventory_def inventoryOf_def)

theorem updateProductInventory_new_quantity_witness:
  "permitted env0 \<and> products db_products ''A'' = Some prodA
   \<and> fst (updateProductInventory env0 ''A'' 7 SUBTRACT db_products) = Success
   \<and> inventoryOf (snd (updateProductInventory env0 ''A'' 7 SUBTRACT db_products)) ''A'' = Some 0
   \<and> inventoryOf (snd (updateProductInventory env0 ''A'' 7 ADD db_products)) ''A'' = Some 12
   \<and> inventoryOf (snd (updateProductInventory env0 ''A'' 7 SET db_products)) ''A'' = Some 7"
proof -
  have h1: "permitted env0" by (simp add: env0_def)
  have h2: "products db_products ''A'' = Some prodA" by (simp add: db_products_def)
  show ?thesis
    using h1 h2 updateProductInventory_new_quantity [OF h1 h2, of 7]
    by (simp add: prodA_def)
qed

subsection \<open>The inventory loops\<close>

lemma inventoryOf_eq_None: "inventoryOf s pid = None \<longleftrightarrow> products s pid = None"
  by (simp add: inventoryOf_def)

lemma product_update_inventory_Some:
  "products s pid = Some p \<Longrightarrow>
   product_update_inventory pid f s
     = Some (s\<lparr>products := (products s)(pid \<mapsto> p\<lparr>inventory := f (inventory p)\<rparr>)\<rparr>)"
  by (simp add: product_update_inventory_def)

lemma adjust_inventory_ok:
  assumes "\<forall>i \<in> set items. products s (oi_productId i) \<noteq> None"
  shows "fst (adjust_inventory k items s) = True
    \<and> orders (snd (adjust_inventory k items s)) = orders s
    \<and> carts (snd (adjust_inventory k items s)) = carts s
    \<and> cartItems (snd (adjust_inventory k items s)) = cartItems s
    \<and> cuids (snd (adjust_inventory k items s)) = cuids s
    \<and> (\<forall>pid. inventoryOf (snd (adjust_inventory k items s)) pid
           = map_option (\<lambda>v. v + k * qty_for pid items) (inventoryOf s pid))"
  using assms
proof (induction items arbitrary: s)
  case Nil
  show ?case by (simp add: qty_for_def option.map_ident)
next
  case (Cons item rest)
  obtain p where p: "products s (oi_productId item) = Some p"
    using Cons.prems by auto
  define s' where "s' = s\<lparr>products := (products s)(oi_productId item \<mapsto>
                        p\<lparr>inventory := inventory p + k * oi_quantity item\<rparr>)\<rparr>"
  have step: "adjust_inventory k (item # rest) s = adjust_inventory k rest s'"
    by (simp add: product_update_inventory_Some [OF p] s'_def)
  have "\<forall>i \<in> set rest. products s' (oi_productId i) \<noteq> None"
    using Cons.prems by (simp add: s'_def)
  from Cons.IH [OF this]
  show ?case
    unfolding step
    by (auto simp: s'_def inventoryOf_def qty_for_def p algebra_simps)
qed

lemma getCartSession_keeps:
  "getCartSession e s = Some (c, s') \<Longrightarrow> products s' = products s \<and> orders s' = orders s"
  by (auto simp: getCartSession_def cart_upsert_user_def cart_upsert_session_def cart_create_def
        Let_def split: option.splits if_splits)

lemma clearCart_keeps:
  "products (snd (clearCart e s)) = products s \<and> orders (snd (clearCart e s)) = orders s"
  by (auto simp: clearCart_def cartItem_deleteMany_def split: option.splits
        dest: getCartSession_keeps)

subsection \<open>Order status updates by an administrator\<close>

text \<open>
  C3, as stated, fails: \<^verbatim>\<open>updateOrderStatus\<close> has no transition table. On a DELIVERED
  order the request for PROCESSING succeeds and the order becomes PROCESSING.
\<close>

theorem updateOrderStatus_accepts_DELIVERED_to_PROCESSING:
  "statusOf (db_order DELIVERED) ''o1'' = Some DELIVERED
   \<and> fst (updateOrderStatus env0 ''o1'' form_processing (db_order DELIVERED)) = Success
   \<and> statusOf (snd (updateOrderStatus env0 ''o1'' form_processing (db_order DELIVERED))) ''o1''
        = Some PROCESSING"
  by (simp add: updateOrderStatus_def order_update_def statusOf_def db_order_def env0_def
        form_processing_def parse_status_def or_undefined_def)

text \<open>
  C3, amended. For a caller with the order-update permission and an existing order in
  any status, \<^verbatim>\<open>updateOrderStatus\<close> accepts each of the six status names, returns
  success and stores the requested status; the products are not touched.
\<close>

theorem updateOrderStatus_any_transition:
  assumes "permitted e" and "orders s oid = Some ord"
    and "sf_status f = Some x" and "parse_status x = Some st"
  shows "fst (updateOrderStatus e oid f s) = Success
    \<and> statusOf (snd (updateOrderStatus e oid f s)) oid = Some st
    \<and> products (snd (updateOrderStatus e oid f s)) = products s"
  using assms
  by (simp add: updateOrderStatus_def order_update_def statusOf_def)

theorem updateOrderStatus_any_transition_witness:
  "permitted env0 \<and> orders (db_order DELIVERED) ''o1'' = Some (ord1\<lparr>order_status := DELIVERED\<rparr>)
   \<and> sf_status form_processing = Some ''PROCESSING''
   \<and> parse_status ''PROCESSING'' = Some PROCESSING
   \<and> fst (updateOrderStatus env0 ''o1'' form_processing (db_order DELIVERED)) = Success
   \<and> statusOf (snd (updateOrderStatus env0 ''o1'' form_processing (db_order DELIVERED))) ''o1''
        = Some PROCESSING"
proof -
  have h1: "permitted env0" by (simp add: env0_def)
  have h2: "orders (db_order DELIVERED) ''o1'' = Some (ord1\<lparr>order_status := DELIVERED\<rparr>)"
    by (simp add: db_order_def)
  have h3: "sf_status form_processing = Some ''PROCESSING''" by (simp add: form_processing_def)
  have h4: "parse_status ''PROCESSING'' = Some PROCESSING" by (simp add: parse_status_def)
  show ?thesis
    using h1 h2 h3 h4 updateOrderStatus_any_transition [OF h1 h2 h3 h4] by simp
qed

text \<open>A call that does not succeed leaves the database as it was.\<close>

lemma updateOrderStatus_failure_unchanged:
  "fst (updateOrderStatus e oid f s) \<noteq> Success \<Longrightarrow> snd (updateOrderStatus e oid f s) = s"
  by (auto simp: updateOrderStatus_def split: option.splits)

subsection \<open>Payment confirmation\<close>

lemma processSuccessfulPayment_once:
  assumes sess: "stripeRetrieve e sid = Some sess" "metadata_orderId sess = Some oid"
    and ord: "orders s oid = Some ord"
    and prods: "\<forall>i \<in> set (order_items ord). products s (oi_productId i) \<noteq> None"
  shows "fst (processSuccessfulPayment e sid s) = Success
    \<and> orders (snd (processSuccessfulPayment e sid s))
        = (orders s)(oid \<mapsto> ord\<lparr>order_status := PROCESSING,
                                  stripePaymentIntentId := payment_intent sess,
                                  paidAt := Some (now e)\<rparr>)
    \<and> (\<forall>pid. inventoryOf (snd (processSuccessfulPayment e sid s)) pid
           = map_option (\<lambda>v. v - qty_for pid (order_items ord)) (inventoryOf s pid))"
proof -
  define s1 where "s1 = s\<lparr>orders := (orders s)(oid \<mapsto> ord\<lparr>order_status := PROCESSING,
                                  stripePaymentIntentId := payment_intent sess,
                                  paidAt := Some (now e)\<rparr>)\<rparr>"
  have upd: "order_update oid (\<lambda>r. r\<lparr>order_status := PROCESSING,
                 stripePaymentIntentId := payment_intent sess, paidAt := Some (now e)\<rparr>) s = Some s1"
    by (simp add: order_update_def ord s1_def)
  have "\<forall>i \<in> set (order_items ord). products s1 (oi_productId i) \<noteq> None"
    using prods by (simp add: s1_def)
  note adj = adjust_inventory_ok [OF this, of "- 1"]
  obtain b s2 where s2: "adjust_inventory (- 1) (order_items ord) s1 = (b, s2)"
    by (cases "adjust_inventory (- 1) (order_items ord) s1")
  have b: "b" using adj s2 by simp
  have run: "processSuccessfulPayment e sid s = (Success, snd (clearCart e s2))"
    by (simp add: processSuccessfulPayment_def sess ord upd s2 b)
  have o2: "orders s2 = orders s1" using adj s2 by simp
  have i2: "\<forall>pid. inventoryOf s2 pid
               = map_option (\<lambda>v. v - qty_for pid (order_items ord)) (inventoryOf s1 pid)"
    using adj s2 by simp
  have i1: "inventoryOf s1 = inventoryOf s" by (rule ext) (simp add: inventoryOf_def s1_def)
  have ic: "inventoryOf (snd (clearCart e s2)) = inventoryOf s2"
    by (rule ext) (simp add: inventoryOf_def clearCart_keeps)
  show ?thesis
    unfolding run by (simp add: clearCart_keeps o2 ic i2 i1) (simp add: s1_def)
qed

text \<open>
  C1, as stated, fails: \<^verbatim>\<open>processSuccessfulPayment\<close> does not look at the order's
  status or at earlier deliveries. For a PENDING order of three units of a product with
  inventory 5, one delivery leaves inventory 2 and \<^verbatim>\<open>paidAt\<close> = 100; a second delivery
  at time 200 succeeds again, leaves inventory -1 and \<^verbatim>\<open>paidAt\<close> = 200.
\<close>

theorem processSuccessfulPayment_not_idempotent:
  "statusOf (db_order PENDING) ''o1'' = Some PENDING
   \<and> inventoryOf (db_order PENDING) ''A'' = Some 5
   \<and> fst (processSuccessfulPayment env0 ''cs1'' (db_order PENDING)) = Success
   \<and> inventoryOf (snd (processSuccessfulPayment env0 ''cs1'' (db_order PENDING))) ''A'' = Some 2
   \<and> paidAtOf (snd (processSuccessfulPayment env0 ''cs1'' (db_order PENDING))) ''o1'' = Some 100
   \<and> fst (processSuccessfulPayment env_later ''cs1''
            (snd (processSuccessfulPayment env0 ''cs1'' (db_order PENDING)))) = Success
   \<and> inventoryOf (snd (processSuccessfulPayment env_later ''cs1''
            (snd (processSuccessfulPayment env0 ''cs1'' (db_order PENDING))))) ''A'' = Some (- 1)
   \<and> paidAtOf (snd (processSuccessfulPayment env_later ''cs1''
            (snd (processSuccessfulPayment env0 ''cs1'' (db_order PENDING))))) ''o1'' = Some 200"
  by (simp add: processSuccessfulPayment_def order_update_def product_update_inventory_def
        clearCart_def getCartSession_def cart_upsert_user_def cart_create_def
        cartItem_deleteMany_def statusOf_def inventoryOf_def paidAtOf_def
        db_order_def ord1_def prodA_def env0_def env_later_def Let_def)

text \<open>
  C1, amended. For every order whose payment session resolves to it and whose products
  exist, each delivery of the confirmation succeeds and leaves the order PROCESSING,
  sets \<^verbatim>\<open>paidAt\<close> to the time of that delivery and decrements each product's inventory
  by the quantity the order holds of it: after two deliveries the status is still
  PROCESSING, \<^verbatim>\<open>paidAt\<close> is the time of the second delivery and the inventory has been
  decremented twice.
\<close>

theorem processSuccessfulPayment_twice:
  assumes sess: "stripeRetrieve e sid = Some sess" "metadata_orderId sess = Some oid"
    and sess': "stripeRetrieve e' sid = Some sess'" "metadata_orderId sess' = Some oid"
    and ord: "orders s oid = Some ord"
    and prods: "\<forall>i \<in> set (order_items ord). products s (oi_productId i) \<noteq> None"
  shows "fst (processSuccessfulPayment e sid s) = Success
    \<and> fst (processSuccessfulPayment e' sid (snd (processSuccessfulPayment e sid s))) = Success
    \<and> statusOf (snd (processSuccessfulPayment e sid s)) oid = Some PROCESSING
    \<and> statusOf (snd (processSuccessfulPayment e' sid (snd (processSuccessfulPayment e sid s)))) oid
        = Some PROCESSING
    \<and> paidAtOf (snd (processSuccessfulPayment e sid s)) oid = Some (now e)
    \<and> paidAtOf (snd (processSuccessfulPayment e' sid (snd (processSuccessfulPayment e sid s)))) oid
        = Some (now e')
    \<and> (\<forall>pid. inventoryOf (snd (processSuccessfulPayment e sid s)) pid
           = map_option (\<lambda>v. v - qty_for pid (order_items ord)) (inventoryOf s pid))
    \<and> (\<forall>pid. inventoryOf (snd (processSuccessfulPayment e' sid
                                  (snd (processSuccessfulPayment e sid s)))) pid
           = map_option (\<lambda>v. v - 2 * qty_for pid (order_items ord)) (inventoryOf s pid))"
proof -
  let ?s1 = "snd (processSuccessfulPayment e sid s)"
  let ?ord1 = "ord\<lparr>order_status := PROCESSING, stripePaymentIntentId := payment_intent sess,
                   paidAt := Some (now e)\<rparr>"
  note once = processSuccessfulPayment_once [OF sess ord prods]
  have ord1: "orders ?s1 oid = Some ?ord1" using once by simp
  have prods1: "\<forall>i \<in> set (order_items ?ord1). products ?s1 (oi_productId i) \<noteq> None"
  proof
    fix i assume "i \<in> set (order_items ?ord1)"
    then have "products s (oi_productId i) \<noteq> None" using prods by simp
    then have "inventoryOf s (oi_productId i) \<noteq> None" by (simp add: inventoryOf_eq_None)
    then have "inventoryOf ?s1 (oi_productId i) \<noteq> None" using once by simp
    then show "products ?s1 (oi_productId i) \<noteq> None" by (simp add: inventoryOf_eq_None)
  qed
  note twice = processSuccessfulPayment_once [OF sess' ord1 prods1]
  have inv2: "\<forall>pid. inventoryOf (snd (processSuccessfulPayment e' sid ?s1)) pid
           = map_option (\<lambda>v. v - 2 * qty_for pid (order_items ord)) (inventoryOf s pid)"
  proof
    fix pid
    have "inventoryOf (snd (processSuccessfulPayment e' sid ?s1)) pid
            = map_option (\<lambda>v. v - qty_for pid (order_items ord)) (inventoryOf ?s1 pid)"
      using twice by simp
    also have "\<dots> = map_option (\<lambda>v. v - qty_for pid (order_items ord))
                       (map_option (\<lambda>v. v - qty_for pid (order_items ord)) (inventoryOf s pid))"
      using once by simp
    also have "\<dots> = map_option (\<lambda>v. v - 2 * qty_for pid (order_items ord)) (inventoryOf s pid)"
      by (cases "inventoryOf s pid") simp_all
    finally show "inventoryOf (snd (processSuccessfulPayment e' sid ?s1)) pid
           = map_option (\<lambda>v. v - 2 * qty_for pid (order_items ord)) (inventoryOf s pid)" .
  qed
  show ?thesis
    using once twice inv2 by (simp add: statusOf_def paidAtOf_def)
qed

theorem processSuccessfulPayment_twice_witness:
  "stripeRetrieve env0 ''cs1'' = Some \<lparr> metadata_orderId = Some ''o1'', payment_intent = Some ''pi1'' \<rparr>
   \<and> stripeRetrieve env_later ''cs1''
        = Some \<lparr> metadata_orderId = Some ''o1'', payment_intent = Some ''pi1'' \<rparr>
   \<and> orders (db_order PENDING) ''o1'' = Some (ord1\<lparr>order_status := PENDING\<rparr>)
   \<and> products (db_order PENDING) ''A'' \<noteq> None
   \<and> inventoryOf (db_order PENDING) ''A'' = Some 5
   \<and> qty_for ''A'' (order_items ord1) = 3
   \<and> inventoryOf (snd (processSuccessfulPayment env0 ''cs1'' (db_order PENDING))) ''A'' = Some 2
   \<and> inventoryOf (snd (processSuccessfulPayment env_later ''cs1''
            (snd (processSuccessfulPayment env0 ''cs1'' (db_order PENDING))))) ''A'' = Some (- 1)
   \<and> paidAtOf (snd (processSuccessfulPayment env_later ''cs1''
            (snd (processSuccessfulPayment env0 ''cs1'' (db_order PENDING))))) ''o1'' = Some 200"
proof -
  let ?sess = "\<lparr> metadata_orderId = Some ''o1'', payment_intent = Some ''pi1'' \<rparr>"
  let ?ord = "ord1\<lparr>order_status := PENDING\<rparr>"
  have h1: "stripeRetrieve env0 ''cs1'' = Some ?sess" by (simp add: env0_def)
  have h2: "metadata_orderId ?sess = Some ''o1''" by simp
  have h3: "stripeRetrieve env_later ''cs1'' = Some ?sess" by (simp add: env_later_def env0_def)
  have h4: "orders (db_order PENDING) ''o1'' = Some ?ord" by (simp add: db_order_def)
  have h5: "\<forall>i \<in> set (order_items ?ord). products (db_order PENDING) (oi_productId i) \<noteq> None"
    by (simp add: ord1_def db_order_def)
  have h6: "inventoryOf (db_order PENDING) ''A'' = Some 5"
    by (simp add: inventoryOf_def db_order_def prodA_def)
  have h7: "qty_for ''A'' (order_items ord1) = 3" by (simp add: qty_for_def ord1_def)
  have h8: "products (db_order PENDING) ''A'' \<noteq> None" by (simp add: db_order_def)
  have h9: "now env_later = 200" by (simp add: env_later_def)
  show ?thesis
    using processSuccessfulPayment_twice [OF h1 h2 h3 h2 h4 h5] h1 h3 h4 h6 h7 h8 h9
    by simp
qed

subsection \<open>Cancellation by the customer\<close>

text \<open>
  C6. For an order owned by the calling user whose products exist: if it is PROCESSING,
  \<^verbatim>\<open>cancelOrder\<close> succeeds, raises each product's inventory by the quantity the order
  holds of it, and stores status CANCELLED with \<^verbatim>\<open>cancelledAt\<close> set to the current
  time; a second call is refused and changes nothing, so the units are restocked once.
  If it is PENDING, \<^verbatim>\<open>cancelOrder\<close> succeeds, stores CANCELLED with \<^verbatim>\<open>cancelledAt\<close>
  and leaves the products as they were.
\<close>

theorem cancelOrder_restocks:
  assumes user: "currentUser e = Some u"
    and ord: "orders s oid = Some ord" and own: "order_userId ord = Some u"
    and prods: "\<forall>i \<in> set (order_items ord). products s (oi_productId i) \<noteq> None"
  shows "(order_status ord = PROCESSING \<longrightarrow>
            fst (cancelOrder e oid s) = Success
          \<and> (\<forall>pid. inventoryOf (snd (cancelOrder e oid s)) pid
                 = map_option (\<lambda>v. v + qty_for pid (order_items ord)) (inventoryOf s pid))
          \<and> orders (snd (cancelOrder e oid s)) oid
              = Some (ord\<lparr>order_status := CANCELLED, cancelledAt := Some (now e)\<rparr>)
          \<and> cancelOrder e oid (snd (cancelOrder e oid s))
              = (Failure ''Order cannot be cancelled'', snd (cancelOrder e oid s)))
       \<and> (order_status ord = PENDING \<longrightarrow>
            fst (cancelOrder e oid s) = Success
          \<and> products (snd (cancelOrder e oid s)) = products s
          \<and> orders (snd (cancelOrder e oid s)) oid
              = Some (ord\<lparr>order_status := CANCELLED, cancelledAt := Some (now e)\<rparr>))"
proof (intro conjI impI)
  assume st: "order_status ord = PENDING"
  have run: "cancelOrder e oid s
      = (Success, s\<lparr>orders := (orders s)(oid \<mapsto> ord\<lparr>order_status := CANCELLED,
                                                      cancelledAt := Some (now e)\<rparr>)\<rparr>)"
    by (simp add: cancelOrder_def user ord own st order_update_def)
  show "fst (cancelOrder e oid s) = Success" by (simp add: run)
  show "products (snd (cancelOrder e oid s)) = products s" by (simp add: run)
  show "orders (snd (cancelOrder e oid s)) oid
          = Some (ord\<lparr>order_status := CANCELLED, cancelledAt := Some (now e)\<rparr>)"
    by (simp add: run)
next
  assume st: "order_status ord = PROCESSING"
  note adj = adjust_inventory_ok [OF prods, of 1]
  obtain b s1 where s1: "adjust_inventory 1 (order_items ord) s = (b, s1)"
    by (cases "adjust_inventory 1 (order_items ord) s")
  have b: "b" using adj s1 by simp
  have o1: "orders s1 = orders s" using adj s1 by simp
  define s2 where "s2 = s1\<lparr>orders := (orders s1)(oid \<mapsto> ord\<lparr>order_status := CANCELLED,
                                                         cancelledAt := Some (now e)\<rparr>)\<rparr>"
  have run: "cancelOrder e oid s = (Success, s2)"
    by (simp add: cancelOrder_def user ord own st s1 b order_update_def o1 s2_def)
  show "fst (cancelOrder e oid s) = Success" by (simp add: run)
  show "\<forall>pid. inventoryOf (snd (cancelOrder e oid s)) pid
                 = map_option (\<lambda>v. v + qty_for pid (order_items ord)) (inventoryOf s pid)"
  proof
    fix pid
    have "inventoryOf s2 pid = inventoryOf s1 pid" by (simp add: inventoryOf_def s2_def)
    then show "inventoryOf (snd (cancelOrder e oid s)) pid
                 = map_option (\<lambda>v. v + qty_for pid (order_items ord)) (inventoryOf s pid)"
      using adj s1 by (simp add: run)
  qed
  show "orders (snd (cancelOrder e oid s)) oid
          = Some (ord\<lparr>order_status := CANCELLED, cancelledAt := Some (now e)\<rparr>)"
    by (simp add: run s2_def)
  show "cancelOrder e oid (snd (cancelOrder e oid s))
          = (Failure ''Order cannot be cancelled'', snd (cancelOrder e oid s))"
    by (simp add: run) (simp add: cancelOrder_def user s2_def own)
qed

theorem cancelOrder_restocks_witness:
  "currentUser env0 = Some ''u1''
   \<and> orders (db_order PROCESSING) ''o1'' = Some (ord1\<lparr>order_status := PROCESSING\<rparr>)
   \<and> orders (db_order PENDING) ''o1'' = Some (ord1\<lparr>order_status := PENDING\<rparr>)
   \<and> order_userId ord1 = Some ''u1''
   \<and> products (db_order PROCESSING) ''A'' \<noteq> None
   \<and> inventoryOf (db_order PROCESSING) ''A'' = Some 5
   \<and> qty_for ''A'' (order_items ord1) = 3
   \<and> fst (cancelOrder env0 ''o1'' (db_order PROCESSING)) = Success
   \<and> inventoryOf (snd (cancelOrder env0 ''o1'' (db_order PROCESSING))) ''A'' = Some 8
   \<and> statusOf (snd (cancelOrder env0 ''o1'' (db_order PROCESSING))) ''o1'' = Some CANCELLED
   \<and> fst (cancelOrder env0 ''o1'' (db_order PENDING)) = Success
   \<and> inventoryOf (snd (cancelOrder env0 ''o1'' (db_order PENDING))) ''A'' = Some 5
   \<and> statusOf (snd (cancelOrder env0 ''o1'' (db_order PENDING))) ''o1'' = Some CANCELLED"
proof -
  have h1: "currentUser env0 = Some ''u1''" by (simp add: env0_def)
  have h2: "orders (db_order st) ''o1'' = Some (ord1\<lparr>order_status := st\<rparr>)" for st
    by (simp add: db_order_def)
  have h3: "order_userId (ord1\<lparr>order_status := st\<rparr>) = Some ''u1''" for st
    by (simp add: ord1_def)
  have h4: "\<forall>i \<in> set (order_items (ord1\<lparr>order_status := st\<rparr>)).
              products (db_order st) (oi_productId i) \<noteq> None" for st
    by (simp add: ord1_def db_order_def)
  have h5: "inventoryOf (db_order st) ''A'' = Some 5" for st
    by (simp add: inventoryOf_def db_order_def prodA_def)
  have h6: "qty_for ''A'' (order_items ord1) = 3" by (simp add: qty_for_def ord1_def)
  have h7: "products (db_order st) ''A'' = Some prodA" for st by (simp add: db_order_def)
  have h8: "order_userId ord1 = Some ''u1''" by (simp add: ord1_def)
  show ?thesis
    using cancelOrder_restocks [OF h1 h2 h3 h4, of PROCESSING]
          cancelOrder_restocks [OF h1 h2 h3 h4, of PENDING]
          h1 h2 h5 h6 h7 h8
    by (simp add: statusOf_def inventoryOf_def)
qed

subsection \<open>Checkout\<close>

lemma getCart_keeps:
  "products (snd (getCart e s)) = products s \<and> orders (snd (getCart e s)) = orders s"
  by (auto simp: getCart_def Let_def split: option.splits dest: getCartSession_keeps)

lemma check_inventory_cong:
  "products s = products s' \<Longrightarrow> check_inventory items s = check_inventory items s'"
  by (induction items) (auto split: option.splits)


lemma createCheckout_keeps_products:
  "products (snd (createCheckout e f s)) = products s"
proof -
  have g: "products (snd (getCart e s)) = products s" by (simp add: getCart_keeps)
  show ?thesis
    using g
    by (auto simp: createCheckout_def order_create_def order_update_def Let_def
          split: option.splits prod.splits if_splits)
qed

lemma linePrice_cong: "products s = products s' \<Longrightarrow> linePrice s i = linePrice s' i"
  by (simp add: linePrice_def)


lemma check_inventory_None:
  "check_inventory items s = None \<Longrightarrow>
   \<forall>i \<in> set items. \<exists>p. products s (ci_productId i) = Some p \<and> isActive p
                          \<and> ci_quantity i \<le> inventory p"
  by (induction items) (auto split: option.splits if_splits)


lemma createCheckout_created:
  assumes new: "orders s oid = None"
    and got: "orders (snd (createCheckout e f s)) oid = Some ord"
  shows "check_inventory (chk_items f) s = None
    \<and> order_items ord = map (\<lambda>i. \<lparr> oi_productId = ci_productId i, oi_quantity = ci_quantity i,
                                     oi_price = ci_price i \<rparr>) (chk_items f)
    \<and> order_status ord = PENDING
    \<and> subtotal ord = view_total (fst (getCart e s))
    \<and> shippingCost ord = calculateShippingCost (chk_shippingMethod f) (view_total (fst (getCart e s)))
    \<and> tax ord = calculateTax (view_total (fst (getCart e s))) (chk_state f)
    \<and> total ord = subtotal ord + shippingCost ord + tax ord"
proof -
  obtain cart s1 where gc: "getCart e s = (cart, s1)" by (cases "getCart e s")
  have p1: "products s1 = products s" and o1: "orders s1 = orders s"
    using getCart_keeps [of e s] gc by simp_all
  have ci: "check_inventory (chk_items f) s1 = check_inventory (chk_items f) s"
    by (rule check_inventory_cong) (rule p1)
  have v: "checkoutSchema_parse f = None \<or> checkoutSchema_parse f = Some f"
    by (simp add: checkoutSchema_parse_def)
  show ?thesis
    using got new v
    by (auto simp: createCheckout_def gc ci o1 order_create_def order_update_def Let_def
          split: option.splits if_splits prod.splits)
qed

lemma qty_for_distinct:
  assumes "distinct (map ci_productId items)" and "i \<in> set items"
  shows "qty_for (ci_productId i)
           (map (\<lambda>i. \<lparr> oi_productId = ci_productId i, oi_quantity = ci_quantity i,
                        oi_price = ci_price i \<rparr>) items) = ci_quantity i"
  using assms
proof (induction items)
  case Nil
  then show ?case by simp
next
  case (Cons a items)
  show ?case
  proof (cases "i = a")
    case True
    have "\<forall>j \<in> set items. ci_productId j \<noteq> ci_productId a"
      using Cons.prems(1) by (fastforce simp: image_iff)
    then have "filter (\<lambda>r. oi_productId r = ci_productId a)
                 (map (\<lambda>i. \<lparr> oi_productId = ci_productId i, oi_quantity = ci_quantity i,
                        oi_price = ci_price i \<rparr>) items) = []"
      by (induction items) auto
    then show ?thesis using True by (simp add: qty_for_def)
  next
    case False
    then have "i \<in> set items" using Cons.prems by simp
    moreover have "ci_productId a \<noteq> ci_productId i"
      using Cons.prems False by (fastforce simp: image_iff)
    ultimately show ?thesis using Cons by (simp add: qty_for_def)
  qed
qed

text \<open>Evaluation of the example runs.\<close>

lemmas example_defs =
  env0_def env_a_def env_b_def env_later_def prodA_def prodB_def db_carts_def db_contention_def
  form_A_def form_AB_def ord1_def db_order_def

lemmas action_defs =
  createCheckout_def checkoutSchema_parse_def getCart_def getCartSession_def
  cart_upsert_user_def cart_upsert_session_def cart_create_def emptyCartView_def linePrice_def
  calculateShippingCost_def shippingRates_def calculateTax_def taxRates_def
  order_create_def order_update_def processSuccessfulPayment_def product_update_inventory_def
  clearCart_def cartItem_deleteMany_def Let_def

lemma contention_first_checkout:
  "createCheckout env_a form_A db_contention
     = (CheckoutSuccess ''csA'' ''urlA'',
        db_contention\<lparr>orders := [''c'' \<mapsto>
           \<lparr> order_userId = Some ''u1'', order_status = PENDING, subtotal = 30,
             shippingCost = 599 / 100, tax = 24 / 10, total = 3839 / 100,
             order_items = [\<lparr> oi_productId = ''A'', oi_quantity = 3, oi_price = 10 \<rparr>],
             stripeSessionId = Some ''csA'', stripePaymentIntentId = None, paidAt = None,
             cancelledAt = None, trackingNumber = None, order_notes = None, updatedAt = 100 \<rparr>],
          cuids := 1\<rparr>)"
  by (simp add: action_defs example_defs)

lemma contention_second_checkout:
  "fst (createCheckout env_b form_A (snd (createCheckout env_a form_A db_contention)))
     = CheckoutSuccess ''csB'' ''urlB''
   \<and> products contention_checked = [''A'' \<mapsto> prodA]
   \<and> map_option order_items (orders contention_checked ''c'')
        = Some [\<lparr> oi_productId = ''A'', oi_quantity = 3, oi_price = 10 \<rparr>]
   \<and> map_option order_items (orders contention_checked ''cc'')
        = Some [\<lparr> oi_productId = ''A'', oi_quantity = 3, oi_price = 10 \<rparr>]"
  unfolding contention_checked_def contention_first_checkout
  by (simp add: action_defs example_defs)





text \<open>
  C2, as stated, fails: the stock check of \<^verbatim>\<open>createCheckout\<close> reserves nothing and
  the decrement at payment time is unconditional. With inventory 5, the checkouts of
  two users for three units each both pass the check; after both payments the two
  orders are PROCESSING with three units each, six units sold, and the inventory is -1.
\<close>

theorem concurrent_checkouts_oversell:
  "inventoryOf db_contention ''A'' = Some 5
   \<and> fst (createCheckout env_a form_A db_contention) = CheckoutSuccess ''csA'' ''urlA''
   \<and> fst (createCheckout env_b form_A (snd (createCheckout env_a form_A db_contention)))
        = CheckoutSuccess ''csB'' ''urlB''
   \<and> fst (processSuccessfulPayment env_a ''csA'' contention_checked) = Success
   \<and> fst (processSuccessfulPayment env_b ''csB''
            (snd (processSuccessfulPayment env_a ''csA'' contention_checked))) = Success
   \<and> statusOf contention_paid ''c'' = Some PROCESSING
   \<and> statusOf contention_paid ''cc'' = Some PROCESSING
   \<and> map_option (qty_for ''A'' \<circ> order_items) (orders contention_paid ''c'') = Some 3
   \<and> map_option (qty_for ''A'' \<circ> order_items) (orders contention_paid ''cc'') = Some 3
   \<and> inventoryOf contention_paid ''A'' = Some (- 1)"
proof -
  have c2: "fst (createCheckout env_b form_A (snd (createCheckout env_a form_A db_contention)))
     = CheckoutSuccess ''csB'' ''urlB''" using contention_second_checkout by simp
  have sA: "stripeRetrieve env_a ''csA'' = Some \<lparr> metadata_orderId = Some ''c'', payment_intent = None \<rparr>"
    by (simp add: env_a_def env0_def)
  have sB: "stripeRetrieve env_b ''csB'' = Some \<lparr> metadata_orderId = Some ''cc'', payment_intent = None \<rparr>"
    by (simp add: env_b_def env_a_def env0_def)
  obtain o1 where o1: "orders contention_checked ''c'' = Some o1"
    and i1: "order_items o1 = [\<lparr> oi_productId = ''A'', oi_quantity = 3, oi_price = 10 \<rparr>]"
    using contention_second_checkout by auto
  obtain o2 where o2: "orders contention_checked ''cc'' = Some o2"
    and i2: "order_items o2 = [\<lparr> oi_productId = ''A'', oi_quantity = 3, oi_price = 10 \<rparr>]"
    using contention_second_checkout by auto
  have pr: "products contention_checked = [''A'' \<mapsto> prodA]"
    using contention_second_checkout by simp
  have ex1: "\<forall>i \<in> set (order_items o1). products contention_checked (oi_productId i) \<noteq> None"
    by (simp add: i1 pr)
  note pay1 = processSuccessfulPayment_once [OF sA _ o1 ex1, simplified]
  let ?s3 = "snd (processSuccessfulPayment env_a ''csA'' contention_checked)"
  have o2': "orders ?s3 ''cc'' = Some o2" using pay1 o2 by simp
  have inv3: "inventoryOf ?s3 ''A'' = Some 2"
    using pay1 by (simp add: i1 qty_for_def inventoryOf_def pr prodA_def)
  have ex2: "\<forall>i \<in> set (order_items o2). products ?s3 (oi_productId i) \<noteq> None"
    using inv3 by (auto simp: i2 inventoryOf_def)
  note pay2 = processSuccessfulPayment_once [OF sB _ o2' ex2, simplified]
  have inv4: "inventoryOf contention_paid ''A'' = Some (- 1)"
    unfolding contention_paid_def using pay2 inv3 by (simp add: i2 qty_for_def)
  have st: "statusOf contention_paid ''c'' = Some PROCESSING"
      "statusOf contention_paid ''cc'' = Some PROCESSING"
      "map_option (qty_for ''A'' \<circ> order_items) (orders contention_paid ''c'') = Some 3"
      "map_option (qty_for ''A'' \<circ> order_items) (orders contention_paid ''cc'') = Some 3"
    unfolding contention_paid_def using pay1 pay2
    by (simp_all add: statusOf_def i1 i2 qty_for_def)
  have i0: "inventoryOf db_contention ''A'' = Some 5"
    by (simp add: inventoryOf_def db_contention_def prodA_def)
  show ?thesis
    using i0 contention_first_checkout c2 pay1 pay2 st inv4 by simp
qed

text \<open>
  C2, amended. Without interleaving the bound holds: when a checkout whose lines name
  pairwise different products succeeds, it has changed no inventory, every line's
  quantity is at most the inventory of its product at that moment, and processing the
  payment of the order it created directly afterwards succeeds and leaves each ordered
  product with its inventory minus the line's quantity, which is not negative.
\<close>

theorem checkout_then_payment_within_stock:
  assumes checkout: "createCheckout e f s = (CheckoutSuccess sid url, s1)"
    and lines: "distinct (map ci_productId (chk_items f))"
    and new: "orders s oid = None" and created: "orders s1 oid = Some ord"
    and sess: "stripeRetrieve e' sid' = Some sess" "metadata_orderId sess = Some oid"
  shows "products s1 = products s
    \<and> fst (processSuccessfulPayment e' sid' s1) = Success
    \<and> (\<forall>i \<in> set (chk_items f). \<exists>p. products s (ci_productId i) = Some p
          \<and> ci_quantity i \<le> inventory p
          \<and> inventoryOf (snd (processSuccessfulPayment e' sid' s1)) (ci_productId i)
               = Some (inventory p - ci_quantity i))"
proof -
  have s1: "s1 = snd (createCheckout e f s)" using checkout by simp
  have p1: "products s1 = products s" unfolding s1 by (rule createCheckout_keeps_products)
  note c = createCheckout_created [OF new created [unfolded s1]]
  have items: "order_items ord = map (\<lambda>i. \<lparr> oi_productId = ci_productId i,
                  oi_quantity = ci_quantity i, oi_price = ci_price i \<rparr>) (chk_items f)"
    using c by simp
  note ok = check_inventory_None [OF conjunct1 [OF c]]
  have ex: "\<forall>i \<in> set (order_items ord). products s1 (oi_productId i) \<noteq> None"
    using ok by (auto simp: items p1)
  note pay = processSuccessfulPayment_once [OF sess created ex]
  have "\<exists>p. products s (ci_productId i) = Some p \<and> ci_quantity i \<le> inventory p
          \<and> inventoryOf (snd (processSuccessfulPayment e' sid' s1)) (ci_productId i)
               = Some (inventory p - ci_quantity i)" if i: "i \<in> set (chk_items f)" for i
  proof -
    obtain p where p: "products s (ci_productId i) = Some p" "ci_quantity i \<le> inventory p"
      using ok i by blast
    have q: "qty_for (ci_productId i) (order_items ord) = ci_quantity i"
      unfolding items by (rule qty_for_distinct [OF lines i])
    have "inventoryOf (snd (processSuccessfulPayment e' sid' s1)) (ci_productId i)
            = Some (inventory p - ci_quantity i)"
      using pay by (simp add: q inventoryOf_def p1 p)
    then show ?thesis using p by simp
  qed
  then show ?thesis using p1 pay by simp
qed

theorem checkout_then_payment_within_stock_witness:
  "createCheckout env_a form_A db_contention
     = (CheckoutSuccess ''csA'' ''urlA'', snd (createCheckout env_a form_A db_contention))
   \<and> distinct (map ci_productId (chk_items form_A))
   \<and> orders db_contention ''c'' = None
   \<and> orders (snd (createCheckout env_a form_A db_contention)) ''c'' \<noteq> None
   \<and> stripeRetrieve env_a ''csA'' = Some \<lparr> metadata_orderId = Some ''c'', payment_intent = None \<rparr>
   \<and> inventoryOf db_contention ''A'' = Some 5
   \<and> fst (processSuccessfulPayment env_a ''csA'' (snd (createCheckout env_a form_A db_contention)))
        = Success
   \<and> inventoryOf (snd (processSuccessfulPayment env_a ''csA''
                         (snd (createCheckout env_a form_A db_contention)))) ''A'' = Some 2"
proof -
  let ?s1 = "snd (createCheckout env_a form_A db_contention)"
  have h1: "createCheckout env_a form_A db_contention = (CheckoutSuccess ''csA'' ''urlA'', ?s1)"
    by (simp add: contention_first_checkout)
  have h2: "distinct (map ci_productId (chk_items form_A))" by (simp add: form_A_def)
  have h3: "orders db_contention ''c'' = None" by (simp add: db_contention_def)
  obtain ord where h4: "orders ?s1 ''c'' = Some ord" by (simp add: contention_first_checkout)
  have h5: "stripeRetrieve env_a ''csA''
              = Some \<lparr> metadata_orderId = Some ''c'', payment_intent = None \<rparr>"
    by (simp add: env_a_def env0_def)
  have h6: "products db_contention ''A'' = Some prodA" by (simp add: db_contention_def)
  have h7: "inventoryOf db_contention ''A'' = Some 5"
    by (simp add: inventoryOf_def db_contention_def prodA_def)
  show ?thesis
    using checkout_then_payment_within_stock [OF h1 h2 h3 h4 h5] h1 h2 h3 h4 h5 h6 h7
    by (simp add: form_A_def prodA_def)
qed

subsection \<open>Cart shape\<close>

lemma cart_shape_cong: "cartItems s' = cartItems s \<Longrightarrow> cart_shape s' = cart_shape s"
  by (simp add: cart_shape_def)

lemma getCartSession_cartItems:
  "getCartSession e s = Some (c, s') \<Longrightarrow> cartItems s' = cartItems s"
  by (auto simp: getCartSession_def cart_upsert_user_def cart_upsert_session_def cart_create_def
        Let_def split: option.splits if_splits)

lemma cart_upsert_user_cartItems:
  "cart_upsert_user e u s = Some (c, s') \<Longrightarrow> cartItems s' = cartItems s \<and> set (carts s) \<subseteq> set (carts s')"
  by (auto simp: cart_upsert_user_def cart_create_def Let_def split: option.splits if_splits)

lemma line_key_update:
  "line_key (if item_id x = iid then x\<lparr>item_quantity := q\<rparr> else x) = line_key x"
  by (simp add: line_key_def)

lemma map_line_key_update:
  "map line_key (map (\<lambda>i. if item_id i = iid then i\<lparr>item_quantity := q\<rparr> else i) xs)
     = map line_key xs"
  by (induction xs) (simp_all add: line_key_def)

lemma cart_shape_update:
  assumes "cart_shape s" and "1 \<le> q"
  shows "cart_shape (cartItem_update iid q s)"
proof -
  have "list_all (\<lambda>i. 1 \<le> item_quantity i)
          (map (\<lambda>i. if item_id i = iid then i\<lparr>item_quantity := q\<rparr> else i) (cartItems s))"
    using assms by (auto simp: cart_shape_def list_all_iff)
  moreover have "distinct (map line_key
          (map (\<lambda>i. if item_id i = iid then i\<lparr>item_quantity := q\<rparr> else i) (cartItems s)))"
    using assms unfolding map_line_key_update by (simp add: cart_shape_def)
  ultimately show ?thesis
    unfolding cart_shape_def cartItem_update_def by simp
qed

lemma cart_shape_filter:
  "cart_shape s \<Longrightarrow> cart_shape (s\<lparr>cartItems := filter P (cartItems s)\<rparr>)"
  by (simp add: cart_shape_def list_all_iff distinct_map_filter)

lemma cart_shape_create:
  assumes "cart_shape s" and "1 \<le> q"
    and "(cid, pid, vid) \<notin> set (map line_key (cartItems s))"
    and "cartItem_create e cid pid q vid s = Some s'"
  shows "cart_shape s'"
  using assms
  by (auto simp: cart_shape_def cartItem_create_def Let_def line_key_def list_all_iff
        split: if_splits)

lemma addToCartSchema_parse_Some:
  "addToCartSchema_parse f = Some (pid, q, vid) \<Longrightarrow> 1 \<le> q \<and> q \<le> 100"
  by (auto simp: addToCartSchema_parse_def split: option.splits if_splits)

lemma updateCartItemSchema_parse_Some:
  "updateCartItemSchema_parse fq = Some q \<Longrightarrow> 0 \<le> q \<and> q \<le> 100"
  by (auto simp: updateCartItemSchema_parse_def split: option.splits if_splits)

lemma find_None_key:
  assumes "find (\<lambda>i. item_cartId i = cid \<and> item_productId i = pid \<and> where_variantId vid i) xs = None"
  shows "(cid, pid, vid) \<notin> set (map line_key xs)"
proof
  assume "(cid, pid, vid) \<in> set (map line_key xs)"
  then obtain i where i: "i \<in> set xs" "line_key i = (cid, pid, vid)" by auto
  then have "item_cartId i = cid \<and> item_productId i = pid \<and> where_variantId vid i"
    by (auto simp: line_key_def where_variantId_def split: option.splits)
  then show False using assms i(1) by (auto simp: find_None_iff)
qed

lemma find_None_exact_key:
  assumes "find (\<lambda>i. item_cartId i = cid \<and> item_productId i = pid \<and> item_variantId i = vid) xs = None"
  shows "(cid, pid, vid) \<notin> set (map line_key xs)"
  using assms by (auto simp: find_None_iff line_key_def)

lemma addToCart_shape:
  assumes sh: "cart_shape s"
  shows "cart_shape (snd (addToCart e f s))"
proof (cases "addToCartSchema_parse f")
  case None
  then show ?thesis using sh by (simp add: addToCart_def)
next
  case (Some v)
  obtain pid q vid where v: "v = (pid, q, vid)" by (cases v)
  have q: "1 \<le> q" using Some v addToCartSchema_parse_Some by blast
  show ?thesis
  proof (cases "getCartSession e s")
    case None
    then show ?thesis
      using sh Some v by (auto simp: addToCart_def split: option.splits)
  next
    case gs: (Some cs)
    obtain cart s1 where cs: "cs = (cart, s1)" by (cases cs)
    have c1: "cartItems s1 = cartItems s" using gs cs getCartSession_cartItems by blast
    have sh1: "cart_shape s1" using sh c1 by (simp add: cart_shape_def)
    let ?found = "find (\<lambda>i. item_cartId i = cart_id cart \<and> item_productId i = pid
                              \<and> where_variantId vid i) (cartItems s1)"
    show ?thesis
    proof (cases ?found)
      case None
      note key = find_None_key [OF None]
      have "cart_shape s2" if "cartItem_create e (cart_id cart) pid q vid s1 = Some s2" for s2
        using cart_shape_create [OF sh1 q key that] .
      then show ?thesis
        using sh sh1 Some v gs cs None
        by (auto simp: addToCart_def split: option.splits)
    next
      case ex: (Some existingItem)
      have "existingItem \<in> set (cartItems s1)"
        using ex by (auto simp: find_Some_iff)
      then have "1 \<le> item_quantity existingItem"
        using sh1 by (simp add: cart_shape_def list_all_iff)
      then have "cart_shape (cartItem_update (item_id existingItem)
                               (item_quantity existingItem + q) s1)"
        using cart_shape_update [OF sh1] q by simp
      then show ?thesis
        using sh sh1 Some v gs cs ex
        by (auto simp: addToCart_def Let_def split: option.splits)
    qed
  qed
qed

lemma updateCartItem_shape:
  assumes sh: "cart_shape s"
  shows "cart_shape (snd (updateCartItem e iid fq s))"
proof (cases "updateCartItemSchema_parse fq")
  case None
  then show ?thesis using sh by (simp add: updateCartItem_def)
next
  case (Some q)
  have q: "0 \<le> q" using Some updateCartItemSchema_parse_Some by blast
  show ?thesis
  proof (cases "getCartSession e s")
    case None
    then show ?thesis using sh Some by (simp add: updateCartItem_def)
  next
    case gs: (Some cs)
    obtain cart s1 where cs: "cs = (cart, s1)" by (cases cs)
    have c1: "cartItems s1 = cartItems s" using gs cs getCartSession_cartItems by blast
    have sh1: "cart_shape s1" using sh c1 by (simp add: cart_shape_def)
    have del: "cart_shape (cartItem_delete iid s1)"
      unfolding cartItem_delete_def by (rule cart_shape_filter [OF sh1])
    have upd: "q \<noteq> 0 \<Longrightarrow> cart_shape (cartItem_update iid q s1)"
      using cart_shape_update [OF sh1, of q iid] q by simp
    show ?thesis
      using sh1 Some gs cs del upd
      by (auto simp: updateCartItem_def split: option.splits)
  qed
qed

lemma removeFromCart_shape:
  assumes sh: "cart_shape s"
  shows "cart_shape (snd (removeFromCart e fpid fvid s))"
proof -
  have "cart_shape (cartItem_deleteMany P s1)" if "getCartSession e s = Some (cart, s1)" for P cart s1
  proof -
    have "cart_shape s1" using sh getCartSession_cartItems [OF that] by (simp add: cart_shape_def)
    then show ?thesis unfolding cartItem_deleteMany_def by (rule cart_shape_filter)
  qed
  then show ?thesis
    using sh by (auto simp: removeFromCart_def split: option.splits)
qed

lemma clearCart_shape:
  assumes sh: "cart_shape s"
  shows "cart_shape (snd (clearCart e s))"
proof -
  have "cart_shape (cartItem_deleteMany P s1)" if "getCartSession e s = Some (cart, s1)" for P cart s1
  proof -
    have "cart_shape s1" using sh getCartSession_cartItems [OF that] by (simp add: cart_shape_def)
    then show ?thesis unfolding cartItem_deleteMany_def by (rule cart_shape_filter)
  qed
  then show ?thesis
    using sh by (auto simp: clearCart_def split: option.splits)
qed

lemma merge_items_shape:
  assumes "cart_shape s" and "\<forall>i \<in> set items. 1 \<le> item_quantity i"
  shows "cart_shape (snd (merge_items e ucid items s))"
  using assms
proof (induction items arbitrary: s)
  case Nil
  then show ?case by simp
next
  case (Cons item rest)
  have qi: "1 \<le> item_quantity item" and rest: "\<forall>i \<in> set rest. 1 \<le> item_quantity i"
    using Cons.prems by simp_all
  let ?found = "find (\<lambda>i. item_cartId i = ucid \<and> item_productId i = item_productId item
                            \<and> item_variantId i = item_variantId item) (cartItems s)"
  show ?case
  proof (cases ?found)
    case None
    note key = find_None_exact_key [OF None]
    show ?thesis
    proof (cases "cartItem_create e ucid (item_productId item) (item_quantity item)
                    (item_variantId item) s")
      case cn: None
      then show ?thesis using None Cons.prems by simp
    next
      case (Some s')
      have "cart_shape s'" using cart_shape_create [OF Cons.prems(1) qi key Some] .
      from Cons.IH [OF this rest] show ?thesis using None Some by simp
    qed
  next
    case (Some existingItem)
    have "existingItem \<in> set (cartItems s)" using Some by (auto simp: find_Some_iff)
    then have "1 \<le> item_quantity existingItem"
      using Cons.prems(1) by (simp add: cart_shape_def list_all_iff)
    then have "cart_shape (cartItem_update (item_id existingItem)
                 (item_quantity existingItem + item_quantity item) s)"
      using cart_shape_update [OF Cons.prems(1)] qi by simp
    from Cons.IH [OF this rest] show ?thesis using Some by simp
  qed
qed

lemma mergeGuestCart_shape:
  assumes sh: "cart_shape s"
  shows "cart_shape (snd (mergeGuestCart e g s))"
proof -
  have step: "cart_shape (snd (merge_items e (cart_id uc)
                  (filter (\<lambda>i. item_cartId i = gid) (cartItems s)) s1))"
    if "cart_upsert_user e u s = Some (uc, s1)" for u uc s1 gid
  proof -
    have c1: "cartItems s1 = cartItems s" using cart_upsert_user_cartItems [OF that] by simp
    have sh1: "cart_shape s1" using sh c1 by (simp add: cart_shape_def)
    have "\<forall>i \<in> set (filter (\<lambda>i. item_cartId i = gid) (cartItems s)). 1 \<le> item_quantity i"
      using sh by (simp add: cart_shape_def list_all_iff)
    then show ?thesis by (rule merge_items_shape [OF sh1])
  qed
  have del: "cart_shape (cart_delete gid s2)" if "cart_shape s2" for gid s2
    using that by (simp add: cart_delete_def cart_shape_def list_all_iff distinct_map_filter)
  show ?thesis
  proof (cases "currentUser e")
    case None
    then show ?thesis using sh by (simp add: mergeGuestCart_def)
  next
    case (Some u)
    show ?thesis
    proof (cases "find (\<lambda>c. cart_sessionId c = Some g) (carts s)")
      case None
      then show ?thesis using sh Some by (simp add: mergeGuestCart_def)
    next
      case gc: (Some guestCart)
      let ?items = "filter (\<lambda>i. item_cartId i = cart_id guestCart) (cartItems s)"
      show ?thesis
      proof (cases "cart_upsert_user e u s")
        case None
        then show ?thesis using sh Some gc by (simp add: mergeGuestCart_def Let_def)
      next
        case up: (Some cs)
        obtain uc s1 where cs: "cs = (uc, s1)" by (cases cs)
        obtain b s2 where m: "merge_items e (cart_id uc) ?items s1 = (b, s2)"
          by (cases "merge_items e (cart_id uc) ?items s1")
        have s2: "cart_shape s2" using step [OF up [unfolded cs], of "cart_id guestCart"] m by simp
        show ?thesis
          using sh Some gc up cs m s2 del [OF s2]
          by (cases b) (simp_all add: mergeGuestCart_def Let_def)
      qed
    qed
  qed
qed

lemma updateCartItem_zero_deletes:
  assumes "fst (updateCartItem e iid (Some 0) s) = Success"
  shows "iid \<notin> set (map item_id (cartItems (snd (updateCartItem e iid (Some 0) s))))"
  using assms
  by (auto simp: updateCartItem_def updateCartItemSchema_parse_def cartItem_delete_def
        split: option.splits)

lemma addToCart_existing_keys:
  assumes "addToCartSchema_parse f = Some (pid, q, vid)"
    and "existingLine e s pid vid = Some ex"
  shows "map line_key (cartItems (snd (addToCart e f s))) = map line_key (cartItems s)"
proof -
  obtain cart s1 where gs: "getCartSession e s = Some (cart, s1)"
    and fd: "find (\<lambda>i. item_cartId i = cart_id cart \<and> item_productId i = pid
                     \<and> where_variantId vid i) (cartItems s1) = Some ex"
    using assms(2) by (auto simp: existingLine_def split: option.splits)
  have c1: "cartItems s1 = cartItems s" using gs getCartSession_cartItems by blast
  show ?thesis
    using assms(1) gs fd c1
    by (auto simp: addToCart_def Let_def cartItem_update_def map_line_key_update
          simp del: map_map split: option.splits)
qed

lemma db_carts_session:
  "getCartSession env0 (db_carts n)
     = Some (\<lparr> cart_id = ''k1'', cart_userId = Some ''u1'', cart_sessionId = None \<rparr>, db_carts n)"
  by (simp add: getCartSession_def cart_upsert_user_def env0_def db_carts_def)

lemma db_carts_items:
  "cartItems (db_carts n) =
          [\<lparr> item_id = ''i1'', item_cartId = ''k1'', item_productId = ''A'',
             item_variantId = None, item_quantity = 1 \<rparr>,
           \<lparr> item_id = ''i2'', item_cartId = ''k2'', item_productId = ''A'',
             item_variantId = None, item_quantity = 2 \<rparr>]"
  "products (db_carts n) ''A'' = Some (prodA\<lparr>inventory := n\<rparr>)"
  by (simp_all add: db_carts_def)

lemma db_carts_addToCart:
  "addToCart env0 add_A (db_carts 5)
     = (Success, (db_carts 5)\<lparr>cartItems :=
          [\<lparr> item_id = ''i1'', item_cartId = ''k1'', item_productId = ''A'',
             item_variantId = None, item_quantity = 3 \<rparr>,
           \<lparr> item_id = ''i2'', item_cartId = ''k2'', item_productId = ''A'',
             item_variantId = None, item_quantity = 2 \<rparr>]\<rparr>)"
  by (simp add: addToCart_def addToCartSchema_parse_def or_undefined_def where_variantId_def
        db_carts_session db_carts_items cartItem_update_def add_A_def prodA_def)

lemma db_carts_shape: "cart_shape (db_carts n)"
  by (simp add: cart_shape_def db_carts_items line_key_def)

lemma db_carts_updateCartItem_0:
  "updateCartItem env0 ''i1'' (Some 0) (db_carts 5)
     = (Success, (db_carts 5)\<lparr>cartItems :=
          [\<lparr> item_id = ''i2'', item_cartId = ''k2'', item_productId = ''A'',
             item_variantId = None, item_quantity = 2 \<rparr>]\<rparr>)"
  by (simp add: updateCartItem_def updateCartItemSchema_parse_def db_carts_session db_carts_items
        cartItem_delete_def)

text \<open>
  C8. Every cart mutation preserves the cart shape (each stored line has quantity at
  least 1, at most one line per cart, product and variant): \<^verbatim>\<open>addToCart\<close>,
  \<^verbatim>\<open>updateCartItem\<close>, \<^verbatim>\<open>removeFromCart\<close>, \<^verbatim>\<open>clearCart\<close> and \<^verbatim>\<open>mergeGuestCart\<close>.
  When \<^verbatim>\<open>addToCart\<close> finds a matching line it adds no line, and a successful
  \<^verbatim>\<open>updateCartItem\<close> with quantity 0 leaves no line with that id.
\<close>

theorem cart_mutations_keep_shape:
  assumes "cart_shape s"
  shows "cart_shape (snd (addToCart e f s))
    \<and> cart_shape (snd (updateCartItem e iid fq s))
    \<and> cart_shape (snd (removeFromCart e fpid fvid s))
    \<and> cart_shape (snd (clearCart e s))
    \<and> cart_shape (snd (mergeGuestCart e g s))
    \<and> (addToCartSchema_parse f = Some (pid, q, vid) \<and> existingLine e s pid vid = Some ex
         \<longrightarrow> map line_key (cartItems (snd (addToCart e f s))) = map line_key (cartItems s))
    \<and> (fst (updateCartItem e iid (Some 0) s) = Success
         \<longrightarrow> iid \<notin> set (map item_id (cartItems (snd (updateCartItem e iid (Some 0) s)))))"
proof (intro conjI impI)
  show "cart_shape (snd (addToCart e f s))" using assms by (rule addToCart_shape)
  show "cart_shape (snd (updateCartItem e iid fq s))" using assms by (rule updateCartItem_shape)
  show "cart_shape (snd (removeFromCart e fpid fvid s))" using assms by (rule removeFromCart_shape)
  show "cart_shape (snd (clearCart e s))" using assms by (rule clearCart_shape)
  show "cart_shape (snd (mergeGuestCart e g s))" using assms by (rule mergeGuestCart_shape)
  show "map line_key (cartItems (snd (addToCart e f s))) = map line_key (cartItems s)"
    if "addToCartSchema_parse f = Some (pid, q, vid) \<and> existingLine e s pid vid = Some ex"
    using that addToCart_existing_keys by blast
  show "iid \<notin> set (map item_id (cartItems (snd (updateCartItem e iid (Some 0) s))))"
    if "fst (updateCartItem e iid (Some 0) s) = Success"
    using that by (rule updateCartItem_zero_deletes)
qed

theorem cart_mutations_keep_shape_witness:
  "cart_shape (db_carts 5)
   \<and> fst (addToCart env0 add_A (db_carts 5)) = Success
   \<and> map item_quantity (cartItems (snd (addToCart env0 add_A (db_carts 5)))) = [3, 2]
   \<and> cart_shape (snd (addToCart env0 add_A (db_carts 5)))
   \<and> fst (updateCartItem env0 ''i1'' (Some 0) (db_carts 5)) = Success
   \<and> map item_id (cartItems (snd (updateCartItem env0 ''i1'' (Some 0) (db_carts 5)))) = [''i2'']
   \<and> cart_shape (snd (updateCartItem env0 ''i1'' (Some 0) (db_carts 5)))"
proof -
  have h: "cart_shape (db_carts 5)" by (rule db_carts_shape)
  have "cart_shape (snd (addToCart env0 add_A (db_carts 5)))"
    and "cart_shape (snd (updateCartItem env0 ''i1'' (Some 0) (db_carts 5)))"
    using cart_mutations_keep_shape [OF h, of env0 add_A "''i1''" "Some 0"] by simp_all
  then show ?thesis
    using h by (simp add: db_carts_addToCart db_carts_updateCartItem_0)
qed

subsection \<open>Cart quantities and stock\<close>













subsection \<open>Merging the guest cart\<close>

lemma db_carts_carts:
  "carts (db_carts n) = [\<lparr> cart_id = ''k1'', cart_userId = Some ''u1'', cart_sessionId = None \<rparr>,
                         \<lparr> cart_id = ''k2'', cart_userId = None, cart_sessionId = Some ''g1'' \<rparr>]"
  by (simp add: db_carts_def)

lemma db_carts_upsert:
  "cart_upsert_user env0 ''u1'' (db_carts n)
     = Some (\<lparr> cart_id = ''k1'', cart_userId = Some ''u1'', cart_sessionId = None \<rparr>, db_carts n)"
  by (simp add: cart_upsert_user_def db_carts_carts)

lemma db_carts_mergeGuestCart:
  "mergeGuestCart env0 ''g1'' (db_carts n)
     = (Success, (db_carts n)\<lparr>
          carts := [\<lparr> cart_id = ''k1'', cart_userId = Some ''u1'', cart_sessionId = None \<rparr>],
          cartItems := [\<lparr> item_id = ''i1'', item_cartId = ''k1'', item_productId = ''A'',
                          item_variantId = None, item_quantity = 3 \<rparr>]\<rparr>)"
proof -
  have u: "currentUser env0 = Some ''u1''" by (simp add: env0_def)
  show ?thesis
    by (simp add: mergeGuestCart_def u db_carts_carts db_carts_items db_carts_upsert
          cartItem_update_def cart_delete_def Let_def)
qed

lemma sum_update_by_id:
  assumes "distinct (map item_id xs)" and "x \<in> set xs"
    and key: "\<And>i m. P (i\<lparr>item_quantity := m\<rparr>) = P i"
  shows "sum_list (map item_quantity
           (filter P (map (\<lambda>i. if item_id i = item_id x then i\<lparr>item_quantity := n\<rparr> else i) xs)))
         = sum_list (map item_quantity (filter P xs)) + (if P x then n - item_quantity x else 0)"
  using assms(1,2)
proof (induction xs)
  case Nil
  then show ?case by simp
next
  case (Cons a xs)
  show ?case
  proof (cases "a = x")
    case True
    have "\<forall>i \<in> set xs. item_id i \<noteq> item_id x" using Cons.prems(1) True by (force simp: image_iff)
    then have "map (\<lambda>i. if item_id i = item_id x then i\<lparr>item_quantity := n\<rparr> else i) xs = xs"
      by (induction xs) auto
    then show ?thesis using True by (simp add: key)
  next
    case False
    then have x: "x \<in> set xs" using Cons.prems(2) by simp
    then have "item_id a \<noteq> item_id x" using Cons.prems(1) by (force simp: image_iff)
    then show ?thesis using Cons.IH x Cons.prems(1) by simp
  qed
qed

lemma cart_line_qty_update:
  assumes "distinct (map item_id (cartItems s))" and "x \<in> set (cartItems s)"
  shows "cart_line_qty (cartItem_update (item_id x) n s) cid pid vid
           = cart_line_qty s cid pid vid
             + (if item_cartId x = cid \<and> item_productId x = pid \<and> item_variantId x = vid
                then n - item_quantity x else 0)"
  unfolding cart_line_qty_def cartItem_update_def
  using sum_update_by_id [OF assms, where P = "\<lambda>i. item_cartId i = cid \<and> item_productId i = pid
                                               \<and> item_variantId i = vid" and n = n]
  by simp

lemma cart_line_qty_create:
  assumes "cartItem_create e c p q v s = Some s'"
  shows "cart_line_qty s' cid pid vid
           = cart_line_qty s cid pid vid + (if c = cid \<and> p = pid \<and> v = vid then q else 0)"
    and "distinct (map item_id (cartItems s)) \<Longrightarrow> distinct (map item_id (cartItems s'))"
    and "carts s' = carts s" and "products s' = products s"
  using assms
  by (auto simp: cartItem_create_def cart_line_qty_def Let_def split: if_splits)

lemma cartItem_update_ids:
  "map item_id (cartItems (cartItem_update iid n s)) = map item_id (cartItems s)"
  "carts (cartItem_update iid n s) = carts s" "products (cartItem_update iid n s) = products s"
  by (simp_all add: cartItem_update_def comp_def if_distrib cong: if_cong)

lemma merge_items_sums:
  assumes "distinct (map item_id (cartItems s))" and "merge_items e ucid items s = (True, s')"
  shows "distinct (map item_id (cartItems s')) \<and> carts s' = carts s \<and> products s' = products s
    \<and> (\<forall>cid pid vid. cart_line_qty s' cid pid vid
          = cart_line_qty s cid pid vid + (if cid = ucid then guest_qty items pid vid else 0))"
  using assms
proof (induction items arbitrary: s)
  case Nil
  then show ?case by (simp add: guest_qty_def)
next
  case (Cons item rest)
  let ?found = "find (\<lambda>i. item_cartId i = ucid \<and> item_productId i = item_productId item
                            \<and> item_variantId i = item_variantId item) (cartItems s)"
  show ?case
  proof (cases ?found)
    case None
    then obtain s1 where cr: "cartItem_create e ucid (item_productId item) (item_quantity item)
                                (item_variantId item) s = Some s1"
      and rest: "merge_items e ucid rest s1 = (True, s')"
      using Cons.prems(2) by (auto split: option.splits)
    note c = cart_line_qty_create [OF cr]
    note ih = Cons.IH [OF c(2) [OF Cons.prems(1)] rest]
    show ?thesis
      using ih c(1,3,4) by (auto simp: guest_qty_def)
  next
    case (Some ex)
    let ?s1 = "cartItem_update (item_id ex) (item_quantity ex + item_quantity item) s"
    have rest: "merge_items e ucid rest ?s1 = (True, s')"
      using Cons.prems(2) Some by simp
    have mem: "ex \<in> set (cartItems s)" and k: "item_cartId ex = ucid"
      "item_productId ex = item_productId item" "item_variantId ex = item_variantId item"
      using Some by (auto simp: find_Some_iff)
    have d1: "distinct (map item_id (cartItems ?s1))"
      using Cons.prems(1) by (simp only: cartItem_update_ids)
    note u = cart_line_qty_update [OF Cons.prems(1) mem]
    note ih = Cons.IH [OF d1 rest]
    show ?thesis
      using ih by (auto simp: u k guest_qty_def cartItem_update_ids)
  qed
qed

text \<open>
  C4, as stated, fails: \<^verbatim>\<open>mergeGuestCart\<close> reads no inventory. With inventory 2 of
  product A, merging the guest cart with two units of A into the user's cart with one
  unit succeeds and leaves the user's line at 3, not 2.
\<close>

theorem mergeGuestCart_does_not_clamp:
  "inventoryOf (db_carts 2) ''A'' = Some 2
   \<and> cart_line_qty (db_carts 2) ''k1'' ''A'' None = 1
   \<and> cart_line_qty (db_carts 2) ''k2'' ''A'' None = 2
   \<and> mergeGuestCart env0 ''g1'' (db_carts 2)
        = (Success, snd (mergeGuestCart env0 ''g1'' (db_carts 2)))
   \<and> cart_line_qty (snd (mergeGuestCart env0 ''g1'' (db_carts 2))) ''k1'' ''A'' None = 3"
  by (simp add: db_carts_mergeGuestCart cart_line_qty_def db_carts_items inventoryOf_def prodA_def)

text \<open>
  C4, amended. When the signed-in user's cart is another cart than the guest cart, the
  guest cart has at least one line and item ids are unique, a successful
  \<^verbatim>\<open>mergeGuestCart\<close> leaves the user's cart, for every product and variant, with the
  sum of the quantities the two carts held of them, without regard to stock; the guest
  cart and its lines are gone, and the products are untouched.
\<close>

theorem mergeGuestCart_sums_quantities:
  assumes user: "currentUser e = Some u"
    and guest: "find (\<lambda>c. cart_sessionId c = Some g) (carts s) = Some gc"
    and lines: "filter (\<lambda>i. item_cartId i = cart_id gc) (cartItems s) \<noteq> []"
    and ucart: "cart_upsert_user e u s = Some (uc, s1)"
    and other: "cart_id uc \<noteq> cart_id gc"
    and ids: "distinct (map item_id (cartItems s))"
    and ok: "fst (mergeGuestCart e g s) = Success"
  shows "(\<forall>pid vid. cart_line_qty (snd (mergeGuestCart e g s)) (cart_id uc) pid vid
            = cart_line_qty s (cart_id uc) pid vid + cart_line_qty s (cart_id gc) pid vid)
    \<and> cart_id gc \<notin> set (map cart_id (carts (snd (mergeGuestCart e g s))))
    \<and> cart_id gc \<notin> set (map item_cartId (cartItems (snd (mergeGuestCart e g s))))
    \<and> products (snd (mergeGuestCart e g s)) = products s"
proof -
  let ?items = "filter (\<lambda>i. item_cartId i = cart_id gc) (cartItems s)"
  have c1: "cartItems s1 = cartItems s" using cart_upsert_user_cartItems [OF ucart] by simp
  have p1: "products s1 = products s"
    using ucart by (auto simp: cart_upsert_user_def cart_create_def Let_def
                      split: option.splits if_splits)
  obtain b s2 where m: "merge_items e (cart_id uc) ?items s1 = (b, s2)"
    by (cases "merge_items e (cart_id uc) ?items s1")
  have run: "mergeGuestCart e g s
               = (if b then (Success, cart_delete (cart_id gc) s2)
                  else (Failure ''Failed to merge guest cart'', s2))"
    using lines by (simp add: mergeGuestCart_def user guest ucart m Let_def)
  have b: "b" using ok run by (cases b) simp_all
  have s': "snd (mergeGuestCart e g s) = cart_delete (cart_id gc) s2" using run b by simp
  have d1: "distinct (map item_id (cartItems s1))" using ids c1 by simp
  note ms = merge_items_sums [OF d1 m [unfolded b [THEN eqTrueI]]]
  have q1: "cart_line_qty s1 = cart_line_qty s"
    by (intro ext) (simp add: cart_line_qty_def c1)
  have gq: "guest_qty ?items pid vid = cart_line_qty s (cart_id gc) pid vid" for pid vid
    by (simp add: guest_qty_def cart_line_qty_def conj_commute conj_left_commute cong: conj_cong)
  have del: "cart_line_qty (cart_delete (cart_id gc) s2) (cart_id uc) pid vid
               = cart_line_qty s2 (cart_id uc) pid vid" for pid vid
    using other
    by (auto simp: cart_line_qty_def cart_delete_def intro!: arg_cong [where f = sum_list]
          arg_cong [where f = "map item_quantity"] filter_cong)
  show ?thesis
    unfolding s'
  proof (intro conjI allI)
    fix pid vid
    show "cart_line_qty (cart_delete (cart_id gc) s2) (cart_id uc) pid vid
            = cart_line_qty s (cart_id uc) pid vid + cart_line_qty s (cart_id gc) pid vid"
      using ms by (simp add: del q1 gq)
    show "cart_id gc \<notin> set (map cart_id (carts (cart_delete (cart_id gc) s2)))"
      by (auto simp: cart_delete_def)
    show "cart_id gc \<notin> set (map item_cartId (cartItems (cart_delete (cart_id gc) s2)))"
      by (auto simp: cart_delete_def)
    show "products (cart_delete (cart_id gc) s2) = products s"
      using ms by (simp add: cart_delete_def p1)
  qed
qed

theorem mergeGuestCart_sums_quantities_witness:
  "currentUser env0 = Some ''u1''
   \<and> find (\<lambda>c. cart_sessionId c = Some ''g1'') (carts (db_carts 10))
        = Some \<lparr> cart_id = ''k2'', cart_userId = None, cart_sessionId = Some ''g1'' \<rparr>
   \<and> filter (\<lambda>i. item_cartId i = ''k2'') (cartItems (db_carts 10)) \<noteq> []
   \<and> cart_upsert_user env0 ''u1'' (db_carts 10)
        = Some (\<lparr> cart_id = ''k1'', cart_userId = Some ''u1'', cart_sessionId = None \<rparr>, db_carts 10)
   \<and> distinct (map item_id (cartItems (db_carts 10)))
   \<and> fst (mergeGuestCart env0 ''g1'' (db_carts 10)) = Success
   \<and> inventoryOf (db_carts 10) ''A'' = Some 10
   \<and> cart_line_qty (db_carts 10) ''k1'' ''A'' None = 1
   \<and> cart_line_qty (db_carts 10) ''k2'' ''A'' None = 2
   \<and> cart_line_qty (snd (mergeGuestCart env0 ''g1'' (db_carts 10))) ''k1'' ''A'' None = 3
   \<and> map cart_id (carts (snd (mergeGuestCart env0 ''g1'' (db_carts 10)))) = [''k1'']"
proof -
  let ?gc = "\<lparr> cart_id = ''k2'', cart_userId = None, cart_sessionId = Some ''g1'' \<rparr>"
  let ?uc = "\<lparr> cart_id = ''k1'', cart_userId = Some ''u1'', cart_sessionId = None \<rparr>"
  have h1: "currentUser env0 = Some ''u1''" by (simp add: env0_def)
  have h2: "find (\<lambda>c. cart_sessionId c = Some ''g1'') (carts (db_carts 10)) = Some ?gc"
    by (simp add: db_carts_carts)
  have h3: "filter (\<lambda>i. item_cartId i = cart_id ?gc) (cartItems (db_carts 10)) \<noteq> []"
    by (simp add: db_carts_items)
  have h4: "cart_upsert_user env0 ''u1'' (db_carts 10) = Some (?uc, db_carts 10)"
    by (rule db_carts_upsert)
  have h5: "cart_id ?uc \<noteq> cart_id ?gc" by simp
  have h6: "distinct (map item_id (cartItems (db_carts 10)))" by (simp add: db_carts_items)
  have h7: "fst (mergeGuestCart env0 ''g1'' (db_carts 10)) = Success"
    by (simp add: db_carts_mergeGuestCart)
  have q: "cart_line_qty (db_carts 10) ''k1'' ''A'' None = 1"
      "cart_line_qty (db_carts 10) ''k2'' ''A'' None = 2"
    by (simp_all add: cart_line_qty_def db_carts_items)
  have i: "inventoryOf (db_carts 10) ''A'' = Some 10"
    by (simp add: inventoryOf_def db_carts_items prodA_def)
  have c: "map cart_id (carts (snd (mergeGuestCart env0 ''g1'' (db_carts 10)))) = [''k1'']"
    by (simp add: db_carts_mergeGuestCart)
  have "cart_line_qty (snd (mergeGuestCart env0 ''g1'' (db_carts 10))) ''k1'' ''A'' None = 3"
    using mergeGuestCart_sums_quantities [OF h1 h2 h3 h4 h5 h6 h7] q by simp
  then show ?thesis
    using h1 h2 h3 h4 h6 h7 q i c by simp
qed

end
